theory Spec2Isabelle
  imports Main
begin

section \<open>Python values and failures\<close>

text \<open>
  Every way an invocation of a module can stop early is a value of \<open>error\<close>:
  \<open>Fail msg\<close> is \<^verbatim>\<open>self.fail(msg)\<close>, the other constructors are the Python
  exceptions that the code can raise by itself (a missing dictionary key, an attribute
  of \<^verbatim>\<open>None\<close>, iterating \<^verbatim>\<open>None\<close>, a format string that names an argument it
  is not given, a plain \<^verbatim>\<open>raise Exception\<close>).
\<close>

datatype error =
    Fail string
  | KeyError string
  | AttributeError string
  | TypeError string
  | IndexError string
  | Raised string

type_synonym tags = "(string \<times> string) list"

text \<open>Python truthiness of an optional list and of an optional string.\<close>

definition truthy :: "'a list option \<Rightarrow> bool" where
  "truthy x = (case x of None \<Rightarrow> False | Some xs \<Rightarrow> xs \<noteq> [])"

text \<open>\<^verbatim>\<open>d[key]\<close> on a dictionary whose key may be absent.\<close>

definition getitem :: "string \<Rightarrow> 'a option \<Rightarrow> error + 'a" where
  "getitem key slot = (case slot of None \<Rightarrow> Inl (KeyError key) | Some v \<Rightarrow> Inr v)"

text \<open>
  \<^verbatim>\<open>set(a) - set(b)\<close>, kept as a duplicate-free list.  Python iterates a set in hash
  order; the model lists the elements in the order of their first occurrence in \<open>a\<close>,
  and every statement about the result is made on \<open>set\<close>.
\<close>

definition set_minus :: "string list \<Rightarrow> string list \<Rightarrow> string list" where
  "set_minus a b = remdups (filter (\<lambda>x. x \<notin> set b) a)"

section \<open>Virtual network module: name pattern\<close>

text \<open>
  \<^verbatim>\<open>NAME_PATTERN = re.compile(r"^[a-zA-Z0-9_]{1,61}[a-z0-9_]$")\<close>, used through
  \<^verbatim>\<open>NAME_PATTERN.match(self.name)\<close>.
\<close>

definition in_range :: "char \<Rightarrow> char \<Rightarrow> char \<Rightarrow> bool" where
  "in_range lo hi c = ((of_char lo :: nat) \<le> of_char c \<and> (of_char c :: nat) \<le> of_char hi)"

definition head_class :: "char \<Rightarrow> bool" where
  "head_class c = (in_range CHR ''a'' CHR ''z'' c \<or> in_range CHR ''A'' CHR ''Z'' c
                   \<or> in_range CHR ''0'' CHR ''9'' c \<or> c = CHR ''_'')"

definition last_class :: "char \<Rightarrow> bool" where
  "last_class c = (in_range CHR ''a'' CHR ''z'' c \<or> in_range CHR ''0'' CHR ''9'' c \<or> c = CHR ''_'')"

text \<open>The part between \<^verbatim>\<open>^\<close> and \<^verbatim>\<open>$\<close>: 1 to 61 characters of the first class, then one of the second.\<close>

definition name_body :: "string \<Rightarrow> bool" where
  "name_body s = (2 \<le> length s \<and> length s \<le> 62 \<and> list_all head_class (butlast s) \<and> last_class (last s))"

text \<open>\<^verbatim>\<open>$\<close> matches at the end of the string and also just before a newline that ends it.\<close>

definition NAME_PATTERN_match :: "string \<Rightarrow> bool" where
  "NAME_PATTERN_match s =
     (name_body s \<or> (s \<noteq> [] \<and> last s = CHR 0x0A \<and> name_body (butlast s)))"

text \<open>The acceptance rule of the specification: letters, digits, underscores and hyphens,
  ending in a letter, digit or underscore.\<close>

definition spec_letter_digit_us :: "char \<Rightarrow> bool" where
  "spec_letter_digit_us c = head_class c"

definition spec_name_ok :: "string \<Rightarrow> bool" where
  "spec_name_ok s = (s \<noteq> [] \<and> list_all (\<lambda>c. spec_letter_digit_us c \<or> c = CHR ''-'') s
                     \<and> spec_letter_digit_us (last s))"

section \<open>Virtual network module: data\<close>

datatype vstate = Present | Absent

text \<open>The module parameters (\<^verbatim>\<open>module_arg_spec\<close> plus \<^verbatim>\<open>tags\<close> and the check-mode flag).\<close>

record vnet_params =
  p_name :: string
  p_state :: vstate
  p_location :: "string option"
  p_address_prefixes_cidr :: "string list option"
  p_dns_servers :: "string list option"
  p_purge_address_prefixes :: bool
  p_purge_dns_servers :: bool
  p_tags :: "tags option"
  p_check_mode :: bool

text \<open>
  The \<^verbatim>\<open>VirtualNetwork\<close> object the network client returns.  \<open>v_dhcp_options\<close> and
  \<open>v_address_space\<close> are \<open>None\<close> when the attribute is \<^verbatim>\<open>None\<close>, and otherwise hold
  the \<^verbatim>\<open>dns_servers\<close> and \<^verbatim>\<open>address_prefixes\<close> lists.
\<close>

record vnet_obj =
  v_id :: string
  v_name :: string
  v_location :: string
  v_type :: string
  v_tags :: "tags option"
  v_provisioning_state :: string
  v_etag :: string
  v_dhcp_options :: "string list option"
  v_address_space :: "string list option"

text \<open>
  The dictionary built by \<^verbatim>\<open>virtual_network_to_dict\<close> and edited by the module.  Each
  field is one key; \<open>None\<close> means that the key is absent.  The value under
  \<^verbatim>\<open>tags\<close> can itself be \<^verbatim>\<open>None\<close>.
\<close>

record vnet_dict =
  d_id :: "string option"
  d_name :: "string option"
  d_location :: "string option"
  d_type :: "string option"
  d_tags :: "tags option option"
  d_provisioning_state :: "string option"
  d_etag :: "string option"
  d_dns_servers :: "string list option"
  d_address_prefixes :: "string list option"
  d_status :: "string option"

definition empty_dict :: vnet_dict where
  "empty_dict = \<lparr> d_id = None, d_name = None, d_location = None, d_type = None, d_tags = None,
     d_provisioning_state = None, d_etag = None, d_dns_servers = None,
     d_address_prefixes = None, d_status = None \<rparr>"

text \<open>The \<^verbatim>\<open>VirtualNetwork\<close> object the module builds and sends.\<close>

record vnet_payload =
  pl_location :: string
  pl_address_prefixes :: "string list"
  pl_tags :: "tags option"
  pl_dhcp_options :: "string list option"

text \<open>The remote calls that change something, in the order they are issued.\<close>

datatype vnet_call = CreateOrUpdate vnet_payload | Delete

datatype 'a fetched = Found 'a | CloudError | OtherError

text \<open>
  The collaborators that are not part of the two modules are parameters: the resource
  group lookup (its location, or \<open>None\<close> when the lookup fails), \<^verbatim>\<open>CIDR_PATTERN\<close>,
  \<^verbatim>\<open>check_provisioning_state\<close> and \<^verbatim>\<open>update_tags\<close> of the common base class, and the
  network client.  What the remote side answers may depend on the calls issued so far.
\<close>

record vnet_env =
  e_resource_group :: "string option"
  e_CIDR_PATTERN :: "string \<Rightarrow> bool"
  e_get :: "vnet_call list \<Rightarrow> vnet_obj fetched"
  e_check_provisioning_state :: "vnet_obj \<Rightarrow> vstate \<Rightarrow> bool"
  e_update_tags :: "tags option \<Rightarrow> tags option \<Rightarrow> bool \<times> tags option"
  e_create_or_update :: "vnet_call list \<Rightarrow> vnet_payload \<Rightarrow> vnet_obj option"
  e_delete :: "vnet_call list \<Rightarrow> bool"

text \<open>\<^verbatim>\<open>self.results\<close>, and what an invocation leaves behind: the failure that stopped it
  (if any), \<^verbatim>\<open>self.results\<close> at that moment, and the calls issued.\<close>

record vnet_results =
  r_changed :: bool
  r_results :: vnet_dict

record vnet_run =
  o_failed :: "error option"
  o_results :: vnet_results
  o_calls :: "vnet_call list"

definition stop :: "error \<Rightarrow> vnet_results \<Rightarrow> vnet_call list \<Rightarrow> vnet_run" where
  "stop err res h = \<lparr> o_failed = Some err, o_results = res, o_calls = h \<rparr>"

definition return :: "vnet_results \<Rightarrow> vnet_call list \<Rightarrow> vnet_run" where
  "return res h = \<lparr> o_failed = None, o_results = res, o_calls = h \<rparr>"

definition and_then :: "error + 'a \<Rightarrow> ('a \<Rightarrow> error + 'b) \<Rightarrow> error + 'b" where
  "and_then r f = (case r of Inl err \<Rightarrow> Inl err | Inr v \<Rightarrow> f v)"

section \<open>Virtual network module: operations\<close>

definition virtual_network_to_dict :: "vnet_obj \<Rightarrow> vnet_dict" where
  "virtual_network_to_dict vnet =
     \<lparr> d_id = Some (v_id vnet), d_name = Some (v_name vnet), d_location = Some (v_location vnet),
       d_type = Some (v_type vnet), d_tags = Some (v_tags vnet),
       d_provisioning_state = Some (v_provisioning_state vnet), d_etag = Some (v_etag vnet),
       d_dns_servers = (if truthy (v_dhcp_options vnet) then v_dhcp_options vnet else None),
       d_address_prefixes = (if truthy (v_address_space vnet) then v_address_space vnet else None),
       d_status = None \<rparr>"

text \<open>Lines 275 to 285: the name pattern, then the checks made only for
  \<^verbatim>\<open>state == 'present' and purge_address_prefixes\<close>.\<close>

definition name_message :: string where
  "name_message = ''Parameter error: name must begin with a letter or number, end with a letter, number or underscore and may contain only letters, numbers, periods, underscores or hyphens.''"

definition validate_params :: "vnet_env \<Rightarrow> vnet_params \<Rightarrow> error option" where
  "validate_params e p =
     (if \<not> NAME_PATTERN_match (p_name p) then Some (Fail name_message)
      else if p_state p = Present \<and> p_purge_address_prefixes p then
        (case p_address_prefixes_cidr p of
           None \<Rightarrow> Some (TypeError ''address_prefixes_cidr'')
         | Some prefixes \<Rightarrow>
             (case find (\<lambda>prefix. \<not> e_CIDR_PATTERN e prefix) prefixes of
                Some prefix \<Rightarrow> Some (Fail (''Parameter error: invalid address prefix value '' @ prefix))
              | None \<Rightarrow>
                  (case p_dns_servers p of
                     None \<Rightarrow> None
                   | Some servers \<Rightarrow>
                       if servers \<noteq> [] \<and> length servers > 2
                       then Some (Fail ''Parameter error: You can provide a maximum of 2 DNS servers.'')
                       else None)))
      else None)"

text \<open>Lines 300 to 317: the address prefixes.\<close>

definition diff_address_prefixes ::
  "vnet_params \<Rightarrow> vnet_obj \<Rightarrow> bool \<times> vnet_dict \<Rightarrow> error + bool \<times> vnet_dict" where
  "diff_address_prefixes p vnet cr =
     (case cr of (changed, results) \<Rightarrow>
      (case p_address_prefixes_cidr p of
         None \<Rightarrow> Inr (changed, results)
       | Some requested \<Rightarrow>
           if requested = [] then Inr (changed, results)
           else
             (case v_address_space vnet of
                None \<Rightarrow> Inl (AttributeError ''address_prefixes'')
              | Some existing \<Rightarrow>
                  (let missing_prefixes = set_minus requested existing;
                       extra_prefixes = set_minus existing requested
                   in and_then
                        (if length missing_prefixes > 0 then
                           (if \<not> p_purge_address_prefixes p then
                              and_then (getitem ''address_prefixes'' (d_address_prefixes results))
                                (\<lambda>prefixes. Inr (True,
                                   results\<lparr> d_address_prefixes := Some (prefixes @ missing_prefixes) \<rparr>))
                            else Inr (True, results))
                         else Inr (changed, results))
                        (\<lambda>(changed, results).
                           if length extra_prefixes > 0 \<and> p_purge_address_prefixes p
                           then Inr (True, results\<lparr> d_address_prefixes := Some requested \<rparr>)
                           else Inr (changed, results))))))"

text \<open>Lines 319 to 321: the tags.\<close>

definition diff_tags ::
  "vnet_env \<Rightarrow> vnet_params \<Rightarrow> bool \<times> vnet_dict \<Rightarrow> error + bool \<times> vnet_dict" where
  "diff_tags e p cr =
     (case cr of (changed, results) \<Rightarrow>
        and_then (getitem ''tags'' (d_tags results))
          (\<lambda>current. case e_update_tags e (p_tags p) current of
             (update_tags, new_tags) \<Rightarrow>
               Inr (if update_tags then True else changed, results\<lparr> d_tags := Some new_tags \<rparr>)))"

text \<open>Lines 323 to 334: the DNS servers.\<close>

definition diff_dns_servers ::
  "vnet_params \<Rightarrow> vnet_obj \<Rightarrow> bool \<times> vnet_dict \<Rightarrow> error + bool \<times> vnet_dict" where
  "diff_dns_servers p vnet cr =
     (case cr of (changed, results) \<Rightarrow>
        and_then
          (if truthy (p_dns_servers p) then
             (case v_dhcp_options vnet of
                None \<Rightarrow> Inl (AttributeError ''dns_servers'')
              | Some existing \<Rightarrow>
                  if set existing \<noteq> set (the (p_dns_servers p))
                  then Inr (True, results\<lparr> d_dns_servers := p_dns_servers p \<rparr>)
                  else Inr (changed, results))
           else Inr (changed, results))
          (\<lambda>(changed, results).
             if p_purge_dns_servers p \<and> truthy (v_dhcp_options vnet)
             then Inr (True, results\<lparr> d_dns_servers := Some [] \<rparr>)
             else Inr (changed, results)))"

text \<open>Lines 287 to 343: fetch and compare.  A \<^verbatim>\<open>CloudError\<close> of the fetch means that
  the network does not exist; every other failure leaves the \<^verbatim>\<open>try\<close> block.\<close>

definition diff_phase ::
  "vnet_env \<Rightarrow> vnet_params \<Rightarrow> vnet_call list \<Rightarrow> error + bool \<times> vnet_dict" where
  "diff_phase e p h =
     (case e_get e h of
        OtherError \<Rightarrow> Inl (Raised ''virtual_networks.get'')
      | CloudError \<Rightarrow> Inr (p_state p = Present, empty_dict)
      | Found vnet \<Rightarrow>
          (let results = virtual_network_to_dict vnet in
           if \<not> e_check_provisioning_state e vnet (p_state p)
           then Inl (Fail ''Error: provisioning state'')
           else
             (case p_state p of
                Present \<Rightarrow>
                  and_then (diff_address_prefixes p vnet (False, results))
                    (\<lambda>cr. and_then (diff_tags e p cr) (diff_dns_servers p vnet))
              | Absent \<Rightarrow> Inr (True, results))))"

definition create_or_update_vnet ::
  "vnet_env \<Rightarrow> vnet_payload \<Rightarrow> vnet_results \<Rightarrow> vnet_call list \<Rightarrow> vnet_run" where
  "create_or_update_vnet e vnet res h =
     (case e_create_or_update e h vnet of
        None \<Rightarrow> stop (Fail ''Error creating or updating virtual network'') res (h @ [CreateOrUpdate vnet])
      | Some new_vnet \<Rightarrow>
          return (res\<lparr> r_results := virtual_network_to_dict new_vnet \<rparr>) (h @ [CreateOrUpdate vnet]))"

definition delete_virtual_network ::
  "vnet_env \<Rightarrow> vnet_results \<Rightarrow> vnet_call list \<Rightarrow> vnet_run" where
  "delete_virtual_network e res h =
     (if e_delete e h
      then return (res\<lparr> r_results := (r_results res)\<lparr> d_status := Some ''Deleted'' \<rparr> \<rparr>) (h @ [Delete])
      else stop (Fail ''Error deleting virtual network'') res (h @ [Delete]))"

text \<open>Lines 350 to 388: create, update or delete.\<close>

definition update_payload :: "vnet_dict \<Rightarrow> error + vnet_payload" where
  "update_payload results =
     and_then (getitem ''location'' (d_location results)) (\<lambda>location.
     and_then (getitem ''address_prefixes'' (d_address_prefixes results)) (\<lambda>prefixes.
     and_then (getitem ''tags'' (d_tags results)) (\<lambda>tags.
     and_then (getitem ''dns_servers'' (d_dns_servers results)) (\<lambda>servers.
       Inr \<lparr> pl_location = location, pl_address_prefixes = prefixes, pl_tags = tags,
             pl_dhcp_options = (if servers \<noteq> [] then Some servers else None) \<rparr>))))"

definition apply_phase ::
  "vnet_env \<Rightarrow> vnet_params \<Rightarrow> string \<Rightarrow> vnet_results \<Rightarrow> vnet_call list \<Rightarrow> vnet_run" where
  "apply_phase e p location res h =
     (if r_changed res then
        (case p_state p of
           Present \<Rightarrow>
             if r_results res = empty_dict then
               (if \<not> truthy (p_address_prefixes_cidr p)
                then stop (Fail ''Parameter error: address_prefixes_cidr required when creating a virtual network'') res h
                else create_or_update_vnet e
                       \<lparr> pl_location = location,
                         pl_address_prefixes = the (p_address_prefixes_cidr p),
                         pl_tags = (if truthy (p_tags p) then p_tags p else None),
                         pl_dhcp_options = (if truthy (p_dns_servers p) then p_dns_servers p else None) \<rparr>
                       res h)
             else
               (case update_payload (r_results res) of
                  Inl err \<Rightarrow> stop err res h
                | Inr vnet \<Rightarrow> create_or_update_vnet e vnet res h)
         | Absent \<Rightarrow> delete_virtual_network e res h)
      else return res h)"

text \<open>\<^verbatim>\<open>exec_module_impl\<close>, started when the calls \<open>h\<close> have already been issued.\<close>

definition exec_module_impl :: "vnet_env \<Rightarrow> vnet_params \<Rightarrow> vnet_call list \<Rightarrow> vnet_run" where
  "exec_module_impl e p h =
     (let res0 = \<lparr> r_changed = False, r_results = empty_dict \<rparr> in
      case e_resource_group e of
        None \<Rightarrow> stop (Fail ''Error: resource group not found'') res0 h
      | Some group_location \<Rightarrow>
          (let location = (if truthy (p_location p) then the (p_location p) else group_location) in
           case validate_params e p of
             Some err \<Rightarrow> stop err res0 h
           | None \<Rightarrow>
               (case diff_phase e p h of
                  Inl err \<Rightarrow> stop err res0 h
                | Inr (changed, results) \<Rightarrow>
                    (let res = \<lparr> r_changed = changed, r_results = results \<rparr> in
                     if p_check_mode p then return res h
                     else apply_phase e p location res h))))"

section \<open>Virtual machine module: data\<close>

datatype vm_state = StPresent | StAbsent | StStarted | StStopped

datatype os_type = Linux | Windows

text \<open>The \<^verbatim>\<open>image\<close> parameter, a dictionary read with \<^verbatim>\<open>get\<close>.\<close>

record image =
  im_publisher :: "string option"
  im_offer :: "string option"
  im_sku :: "string option"
  im_version :: "string option"

text \<open>One entry of \<^verbatim>\<open>ssh_public_keys\<close>: not a dictionary at all, or a dictionary read
  with \<^verbatim>\<open>get('path')\<close> and \<^verbatim>\<open>get('key_data')\<close>.\<close>

datatype ssh_entry = NotADict | KeyDict "string option" "string option"

record vm_params =
  vp_name :: string
  vp_state :: vm_state
  vp_location :: "string option"
  vp_short_hostname :: "string option"
  vp_vm_size :: "string option"
  vp_admin_username :: "string option"
  vp_admin_password :: "string option"
  vp_ssh_password :: bool
  vp_ssh_public_keys :: "ssh_entry list option"
  vp_image :: "image option"
  vp_storage_account_name :: "string option"
  vp_storage_container_name :: string
  vp_storage_blob_name :: "string option"
  vp_os_disk_caching :: "string option"
  vp_os_type :: os_type
  vp_public_ip_allocation_method :: string
  vp_ssh_port :: int
  vp_rdp_port :: int
  vp_network_interface_names :: "string list option"
  vp_delete_network_interfaces :: bool
  vp_delete_virtual_storage :: bool
  vp_delete_public_ips :: bool
  vp_virtual_network_name :: "string option"
  vp_subnet_name :: "string option"
  vp_tags :: "tags option"
  vp_check_mode :: bool

record image_reference =
  ir_publisher :: string
  ir_offer :: string
  ir_sku :: string
  ir_version :: string

record os_disk =
  od_name :: string
  od_vhd_uri :: string
  od_create_option :: string
  od_os_type :: string
  od_caching :: string

record ssh_public_key =
  k_path :: string
  k_key_data :: string

text \<open>\<^verbatim>\<open>linuxConfiguration\<close>: both keys are read with \<^verbatim>\<open>get\<close>; \<open>lc_public_keys\<close> is
  what \<^verbatim>\<open>get('ssh')\<close> followed by \<^verbatim>\<open>get('publicKeys')\<close> finds.\<close>

record linux_configuration =
  lc_disable_password_authentication :: "bool option"
  lc_public_keys :: "ssh_public_key list option"

record os_profile =
  op_admin_username :: string
  op_computer_name :: string
  op_admin_password :: "string option"
  op_linux_configuration :: "linux_configuration option"

text \<open>The \<^verbatim>\<open>VirtualMachine\<close> object the compute client returns, with the status codes of
  its instance view.\<close>

record vm_obj =
  m_id :: string
  m_name :: string
  m_location :: string
  m_type :: string
  m_tags :: "tags option option"
  m_provisioning_state :: string
  m_statuses :: "string list"
  m_vm_size :: string
  m_image_reference :: image_reference
  m_os_disk :: os_disk
  m_os_profile :: os_profile
  m_network_interfaces :: "string list"

text \<open>A network interface object: each IP configuration may name a public IP address.\<close>

record nic_obj =
  n_id :: string
  n_provisioning_state :: string
  n_ip_configurations :: "string option list"

record storage_obj =
  sa_name :: string
  sa_provisioning_state :: string

text \<open>The serialized virtual machine.  An interface starts as \<^verbatim>\<open>{id: ...}\<close> and is
  expanded with its name and its IP configurations, each public IP with its name and
  properties (kept as one opaque string).\<close>

record public_ip_dict =
  pi_id :: string
  pi_name :: "string option"
  pi_properties :: "string option"

record interface_dict =
  if_id :: string
  if_name :: "string option"
  if_properties :: "public_ip_dict option list option"

record vm_dict =
  vd_id :: string
  vd_location :: string
  vd_name :: string
  vd_type :: string
  vd_tags :: "tags option option"
  vd_power_state :: "string option"
  vd_vm_size :: string
  vd_image_reference :: image_reference
  vd_os_disk :: os_disk
  vd_os_profile :: os_profile
  vd_network_interfaces :: "interface_dict list"

text \<open>The \<^verbatim>\<open>VirtualMachine\<close> object the module builds and sends.\<close>

record payload_os_disk =
  pd_name :: "string option"
  pd_vhd_uri :: "string option"
  pd_create_option :: string
  pd_os_type :: "string option"
  pd_caching :: "string option"

text \<open>An entry of \<^verbatim>\<open>ssh.public_keys\<close> in the object that is sent.  The creation of a
  machine builds each entry as \<^verbatim>\<open>SshPublicKey(path=..., key_data=...)\<close> (line 807); the
  update of a machine builds each entry as \<^verbatim>\<open>SshConfiguration(path=..., key_data=...)\<close>
  (lines 874 to 877), an object of the class of the list's owner.  The classes come from
  the Azure SDK, which is not among the sources: an entry records the class it was built
  with and the two keyword arguments it was given.\<close>

datatype payload_key =
    SshPublicKey string string
  | SshConfiguration string string

record payload_linux_configuration =
  pc_disable_password_authentication :: "bool option"
  pc_public_keys :: "payload_key list option"

record vm_resource =
  vr_id :: "string option"
  vr_location :: string
  vr_name :: string
  vr_type :: "string option"
  vr_tags :: "tags option"
  vr_admin_username :: string
  vr_computer_name :: string
  vr_admin_password :: "string option"
  vr_linux_configuration :: "payload_linux_configuration option"
  vr_vm_size :: "string option"
  vr_os_disk :: payload_os_disk
  vr_image_reference :: image_reference
  vr_network_interfaces :: "string list"

text \<open>The remote calls of the virtual machine module that change something.\<close>

datatype vm_call =
    CreateOrUpdateVM vm_resource
  | DeleteVM
  | Start
  | PowerOff
  | DeleteBlob string string string
  | DeleteNic string
  | DeletePip string
  | CreateStorageAccount string
  | CreateDefaultPip string
  | CreateDefaultSecurityGroup os_type int int
  | CreateNic string string string string

text \<open>
  The collaborators of the virtual machine module.  Reads answer \<open>None\<close> (or
  \<open>OtherError\<close>) when the call raises; \<open>ve_call_ok\<close> says whether a changing call and
  the wait for its poller succeed.  \<open>ve_azure_id_to_dict\<close>, \<open>ve_provisioning_ok\<close>,
  \<open>ve_update_tags\<close>, \<open>ve_blob_client\<close>, \<open>ve_default_pip\<close> and
  \<open>ve_default_securitygroup\<close> stand for helpers of the common base class.
\<close>

record vm_env =
  ve_resource_group :: "string option"
  ve_sizes :: "string \<Rightarrow> string list option"
  ve_nic_get :: "vm_call list \<Rightarrow> string \<Rightarrow> nic_obj fetched"
  ve_pip_get :: "vm_call list \<Rightarrow> string \<Rightarrow> string option"
  ve_image_versions :: "string \<Rightarrow> string \<Rightarrow> string \<Rightarrow> string \<Rightarrow> string list option"
  ve_storage_get :: "vm_call list \<Rightarrow> string \<Rightarrow> storage_obj fetched"
  ve_vm_get :: "vm_call list \<Rightarrow> vm_obj fetched"
  ve_provisioning_ok :: "string \<Rightarrow> vm_state option \<Rightarrow> bool"
  ve_update_tags :: "tags option \<Rightarrow> tags option \<Rightarrow> bool \<times> tags option"
  ve_azure_id_to_dict :: "string \<Rightarrow> (string \<times> string) list"
  ve_call_ok :: "vm_call list \<Rightarrow> vm_call \<Rightarrow> bool"
  ve_blob_client :: "vm_call list \<Rightarrow> string \<Rightarrow> bool"
  ve_vnet_named :: "string \<Rightarrow> bool"
  ve_vnet_list :: "string list fetched"
  ve_subnet_get :: "string \<Rightarrow> string option"
  ve_subnet_list :: "string \<Rightarrow> string list fetched"
  ve_default_pip :: "vm_call list \<Rightarrow> string"
  ve_default_securitygroup :: "vm_call list \<Rightarrow> string"
  ve_created_nic :: "vm_call list \<Rightarrow> nic_obj"

text \<open>\<^verbatim>\<open>self.results\<close> of the virtual machine module.\<close>

record vm_results =
  s_changed :: bool
  s_actions :: "string list"
  s_differences :: "string list option"
  s_powerstate_change :: "string option"
  s_results :: "vm_dict option"
  s_deleted_vhd_uris :: "string list option"
  s_deleted_network_interfaces :: "string list option"
  s_deleted_public_ips :: "string list option"

text \<open>What changes while the module applies: \<^verbatim>\<open>self.results\<close> and the calls issued.\<close>

record vm_world =
  w_results :: vm_results
  w_calls :: "vm_call list"

record vm_run =
  x_failed :: "error option"
  x_results :: vm_results
  x_calls :: "vm_call list"

text \<open>A step of the apply phase: it fails or yields a value, and leaves a world behind
  either way.\<close>

type_synonym 'a step = "vm_world \<Rightarrow> (error + 'a) \<times> vm_world"

definition pure :: "'a \<Rightarrow> 'a step" where
  "pure v w = (Inr v, w)"

definition failing :: "error \<Rightarrow> 'a step" where
  "failing err w = (Inl err, w)"

definition next_step :: "'a step \<Rightarrow> ('a \<Rightarrow> 'b step) \<Rightarrow> 'b step" where
  "next_step m f w = (case m w of (Inl err, w') \<Rightarrow> (Inl err, w') | (Inr v, w') \<Rightarrow> f v w')"

definition lift :: "error + 'a \<Rightarrow> 'a step" where
  "lift r w = (r, w)"

text \<open>\<^verbatim>\<open>self.results['actions'].append(msg)\<close>.\<close>

definition action :: "string \<Rightarrow> unit step" where
  "action msg w =
     (Inr (), w\<lparr> w_results := (w_results w)\<lparr> s_actions := s_actions (w_results w) @ [msg] \<rparr> \<rparr>)"

text \<open>A changing remote call followed by the wait for its poller; a failure of either is
  \<^verbatim>\<open>self.fail\<close>.\<close>

definition issue :: "vm_env \<Rightarrow> vm_call \<Rightarrow> string \<Rightarrow> unit step" where
  "issue e call msg w =
     (if ve_call_ok e (w_calls w) call
      then (Inr (), w\<lparr> w_calls := w_calls w @ [call] \<rparr>)
      else (Inl (Fail msg), w\<lparr> w_calls := w_calls w @ [call] \<rparr>))"

definition set_results :: "vm_dict \<Rightarrow> unit step" where
  "set_results d w = (Inr (), w\<lparr> w_results := (w_results w)\<lparr> s_results := Some d \<rparr> \<rparr>)"

definition calls_so_far :: "vm_call list step" where
  "calls_so_far w = (Inr (w_calls w), w)"

section \<open>Virtual machine module: reading and comparing\<close>

definition startswith :: "string \<Rightarrow> string \<Rightarrow> bool" where
  "startswith s pre = (take (length pre) s = pre)"

text \<open>\<^verbatim>\<open>s.replace(old, new)\<close> for a non-empty \<open>old\<close>: the occurrences are replaced from
  the left and do not overlap; \<open>skip\<close> counts the characters of an occurrence still to
  be dropped.\<close>

fun replace_from :: "nat \<Rightarrow> string \<Rightarrow> string \<Rightarrow> string \<Rightarrow> string" where
  "replace_from skip old new [] = []"
| "replace_from skip old new (c # cs) =
     (if skip > 0 then replace_from (skip - 1) old new cs
      else if startswith (c # cs) old then new @ replace_from (length old - 1) old new cs
      else c # replace_from 0 old new cs)"

definition replace :: "string \<Rightarrow> string \<Rightarrow> string \<Rightarrow> string" where
  "replace old new s = replace_from 0 old new s"

text \<open>The power state: the first status code that starts with \<^verbatim>\<open>PowerState\<close>, without
  \<^verbatim>\<open>PowerState/\<close>; \<^verbatim>\<open>None\<close> when there is no such code.\<close>

definition power_state :: "string list \<Rightarrow> string option" where
  "power_state codes =
     (case filter (\<lambda>code. startswith code ''PowerState'') codes of
        [] \<Rightarrow> None
      | code # _ \<Rightarrow> Some (replace ''PowerState/'' [] code))"

fun map_err :: "('a \<Rightarrow> error + 'b) \<Rightarrow> 'a list \<Rightarrow> error + 'b list" where
  "map_err f [] = Inr []"
| "map_err f (x # xs) =
     (case f x of
        Inl err \<Rightarrow> Inl err
      | Inr y \<Rightarrow> (case map_err f xs of Inl err \<Rightarrow> Inl err | Inr ys \<Rightarrow> Inr (y # ys)))"

text \<open>\<^verbatim>\<open>azure_id_to_dict(id)[key]\<close>.\<close>

definition id_part :: "vm_env \<Rightarrow> string \<Rightarrow> string \<Rightarrow> error + string" where
  "id_part e ident key = getitem key (map_of (ve_azure_id_to_dict e ident) key)"

definition get_network_interface :: "vm_env \<Rightarrow> vm_call list \<Rightarrow> string \<Rightarrow> error + nic_obj" where
  "get_network_interface e h name =
     (case ve_nic_get e h name of
        Found nic \<Rightarrow> Inr nic
      | _ \<Rightarrow> Inl (Fail (''Error fetching network interface '' @ name)))"

definition get_vm :: "vm_env \<Rightarrow> vm_call list \<Rightarrow> error + vm_obj" where
  "get_vm e h =
     (case ve_vm_get e h of
        Found vm \<Rightarrow> Inr vm
      | _ \<Rightarrow> Inl (Fail ''Error getting virtual machine''))"

definition get_storage_account :: "vm_env \<Rightarrow> vm_call list \<Rightarrow> string \<Rightarrow> error + storage_obj" where
  "get_storage_account e h name =
     (case ve_storage_get e h name of
        Found account \<Rightarrow> Inr account
      | _ \<Rightarrow> Inl (Fail ''Error fetching storage account''))"

text \<open>What \<^verbatim>\<open>serialize_obj\<close> of the base class makes of the two kinds of object.\<close>

definition serialize_obj :: "vm_obj \<Rightarrow> vm_dict" where
  "serialize_obj vm =
     \<lparr> vd_id = m_id vm, vd_location = m_location vm, vd_name = m_name vm, vd_type = m_type vm,
       vd_tags = m_tags vm, vd_power_state = None, vd_vm_size = m_vm_size vm,
       vd_image_reference = m_image_reference vm, vd_os_disk = m_os_disk vm,
       vd_os_profile = m_os_profile vm,
       vd_network_interfaces =
         map (\<lambda>i. \<lparr> if_id = i, if_name = None, if_properties = None \<rparr>) (m_network_interfaces vm) \<rparr>"

definition nic_properties :: "nic_obj \<Rightarrow> public_ip_dict option list" where
  "nic_properties nic =
     map (map_option (\<lambda>i. \<lparr> pi_id = i, pi_name = None, pi_properties = None \<rparr>))
       (n_ip_configurations nic)"

fun expand_interfaces ::
  "vm_env \<Rightarrow> vm_call list \<Rightarrow> string list \<Rightarrow> interface_dict list \<Rightarrow> error + interface_dict list" where
  "expand_interfaces e h [] ds = Inr ds"
| "expand_interfaces e h (i # rest) ds =
     and_then (id_part e i ''networkInterfaces'') (\<lambda>name.
     and_then (get_network_interface e h name) (\<lambda>nic.
       expand_interfaces e h rest
         (map (\<lambda>d. if if_id d = i
                    then d\<lparr> if_name := Some name, if_properties := Some (nic_properties nic) \<rparr>
                    else d) ds)))"

definition expand_config ::
  "vm_env \<Rightarrow> vm_call list \<Rightarrow> public_ip_dict option \<Rightarrow> error + public_ip_dict option" where
  "expand_config e h config =
     (case config of
        None \<Rightarrow> Inr None
      | Some pip \<Rightarrow>
          and_then (id_part e (pi_id pip) ''publicIPAddresses'') (\<lambda>name.
            case ve_pip_get e h name of
              None \<Rightarrow> Inl (Fail (''Error fetching public ip '' @ name))
            | Some props \<Rightarrow> Inr (Some (pip\<lparr> pi_name := Some name, pi_properties := Some props \<rparr>))))"

definition expand_public_ips ::
  "vm_env \<Rightarrow> vm_call list \<Rightarrow> interface_dict \<Rightarrow> error + interface_dict" where
  "expand_public_ips e h d =
     and_then (getitem ''properties'' (if_properties d)) (\<lambda>configs.
     and_then (map_err (expand_config e h) configs) (\<lambda>configs'.
       Inr (d\<lparr> if_properties := Some configs' \<rparr>)))"

definition serialize_vm :: "vm_env \<Rightarrow> vm_params \<Rightarrow> vm_call list \<Rightarrow> vm_obj \<Rightarrow> error + vm_dict" where
  "serialize_vm e p h vm =
     (let result = (serialize_obj vm)\<lparr> vd_power_state := power_state (m_statuses vm) \<rparr> in
      and_then (expand_interfaces e h (m_network_interfaces vm) (vd_network_interfaces result))
        (\<lambda>interfaces.
      and_then (map_err (expand_public_ips e h) interfaces) (\<lambda>interfaces'.
        if vp_state p \<noteq> StAbsent \<and> \<not> truthy (vd_power_state result)
        then Inl (Fail (''Failed to determine PowerState of virtual machine '' @ vp_name p))
        else Inr (result\<lparr> vd_network_interfaces := interfaces' \<rparr>))))"

text \<open>Lines 572 to 613: the parameters are checked and completed.  \<open>nz_image\<close> is the
  image with its version resolved, \<open>None\<close> when no image was given.\<close>

record normalized =
  nz_location :: string
  nz_network_interfaces :: "string list"
  nz_image :: "image_reference option"
  nz_storage_blob_name :: "string option"
  nz_requested_vhd_uri :: "string option"
  nz_disable_ssh_password :: "bool option"

definition vm_size_is_valid :: "vm_env \<Rightarrow> string \<Rightarrow> string \<Rightarrow> error + bool" where
  "vm_size_is_valid e location vm_size =
     (case ve_sizes e location of
        None \<Rightarrow> Inl (Fail ''Error retrieving available machine sizes'')
      | Some sizes \<Rightarrow> Inr (vm_size \<in> set sizes))"

definition ssh_keys_message :: string where
  "ssh_keys_message = ''Parameter error: expecting ssh_public_keys to be a list of type dict where each dict contains keys: path, key_data.''"

definition check_ssh_entry :: "ssh_entry \<Rightarrow> error + unit" where
  "check_ssh_entry key =
     (case key of
        NotADict \<Rightarrow> Inl (Fail ssh_keys_message)
      | KeyDict path key_data \<Rightarrow>
          if \<not> truthy path \<or> \<not> truthy key_data then Inl (Fail ssh_keys_message) else Inr ())"

text \<open>Lines 1078 to 1099.  When the listing of the versions raises, the handler formats
  \<^verbatim>\<open>Error fetching image {0} {1} {2} - {4}\<close> with four arguments: \<^verbatim>\<open>str.format\<close> raises
  \<^verbatim>\<open>IndexError\<close> for the field \<^verbatim>\<open>{4}\<close>, and \<^verbatim>\<open>self.fail\<close> is never called.\<close>

definition get_image_version ::
  "vm_env \<Rightarrow> string \<Rightarrow> image_reference \<Rightarrow> error + string" where
  "get_image_version e location img =
     (case ve_image_versions e location (ir_publisher img) (ir_offer img) (ir_sku img) of
        None \<Rightarrow> Inl (IndexError ''tuple index out of range'')
      | Some versions \<Rightarrow>
          if versions \<noteq> [] \<and> ir_version img = ''latest'' then Inr (last versions)
          else (case find (\<lambda>name. name = ir_version img) versions of
                  Some name \<Rightarrow> Inr name
                | None \<Rightarrow> Inl (Fail ''Error could not find image'')))"

text \<open>An image dictionary is empty when none of its keys is set.  \<^verbatim>\<open>self.error\<close>, called
  when one of the four values is missing or empty, is not a method the sources show;
  the call is taken to end the invocation.\<close>

definition image_given :: "image option \<Rightarrow> bool" where
  "image_given img =
     (case img of
        None \<Rightarrow> False
      | Some i \<Rightarrow> im_publisher i \<noteq> None \<or> im_offer i \<noteq> None \<or> im_sku i \<noteq> None \<or> im_version i \<noteq> None)"

definition resolve_image :: "vm_env \<Rightarrow> string \<Rightarrow> image option \<Rightarrow> error + image_reference option" where
  "resolve_image e location img =
     (if image_given img then
        (let i = the img in
         if \<not> truthy (im_publisher i) \<or> \<not> truthy (im_offer i) \<or> \<not> truthy (im_sku i)
            \<or> \<not> truthy (im_version i)
         then Inl (AttributeError ''error'')
         else
           (let r = \<lparr> ir_publisher = the (im_publisher i), ir_offer = the (im_offer i),
                      ir_sku = the (im_sku i), ir_version = the (im_version i) \<rparr>
            in and_then (get_image_version e location r) (\<lambda>name.
                 Inr (Some (if ir_version r = ''latest'' then r\<lparr> ir_version := name \<rparr> else r)))))
      else Inr None)"

definition vhd_uri :: "string \<Rightarrow> string \<Rightarrow> string \<Rightarrow> string" where
  "vhd_uri account container blob =
     ''https://'' @ account @ ''.blob.core.windows.net/'' @ container @ ''/'' @ blob"

definition check_parameters :: "vm_env \<Rightarrow> vm_params \<Rightarrow> vm_call list \<Rightarrow> error + normalized" where
  "check_parameters e p h =
     (case ve_resource_group e of
        None \<Rightarrow> Inl (Fail ''Error: resource group not found'')
      | Some group_location \<Rightarrow>
          (let location = (if truthy (vp_location p) then the (vp_location p) else group_location) in
           if vp_state p = StAbsent then
             Inr \<lparr> nz_location = location, nz_network_interfaces = [], nz_image = None,
                   nz_storage_blob_name = vp_storage_blob_name p, nz_requested_vhd_uri = None,
                   nz_disable_ssh_password = None \<rparr>
           else
             and_then (if truthy (vp_vm_size p)
                       then and_then (vm_size_is_valid e location (the (vp_vm_size p)))
                              (\<lambda>valid. if \<not> valid then Inl (AttributeError ''foramt'') else Inr ())
                       else Inr ()) (\<lambda>_.
             and_then (if truthy (vp_network_interface_names p)
                       then map_err (\<lambda>name. and_then (get_network_interface e h name)
                                                (\<lambda>nic. Inr (n_id nic)))
                              (the (vp_network_interface_names p))
                       else Inr []) (\<lambda>network_interfaces.
             and_then (if truthy (vp_ssh_public_keys p)
                       then map_err check_ssh_entry (the (vp_ssh_public_keys p))
                       else Inr []) (\<lambda>_.
             and_then (resolve_image e location (vp_image p)) (\<lambda>img.
               (let blob = (if truthy (vp_storage_blob_name p) then the (vp_storage_blob_name p)
                            else vp_name p @ ''.vhd'')
                in and_then (if truthy (vp_storage_account_name p)
                             then and_then (get_storage_account e h (the (vp_storage_account_name p)))
                                    (\<lambda>_. Inr (Some (vhd_uri (the (vp_storage_account_name p))
                                                       (vp_storage_container_name p) blob)))
                             else Inr None) (\<lambda>requested_vhd_uri.
                      Inr \<lparr> nz_location = location, nz_network_interfaces = network_interfaces,
                            nz_image = img, nz_storage_blob_name = Some blob,
                            nz_requested_vhd_uri = requested_vhd_uri,
                            nz_disable_ssh_password = Some (\<not> vp_ssh_password p) \<rparr>))))))))"

text \<open>Lines 621 to 707: the comparison of an existing virtual machine with the
  parameters.  It edits the serialized machine in place and collects the differences.\<close>

record compared =
  c_vm_dict :: vm_dict
  c_differences :: "string list"
  c_changed :: bool
  c_powerstate_change :: "string option"

definition diff_network_interfaces :: "vm_params \<Rightarrow> normalized \<Rightarrow> compared \<Rightarrow> compared" where
  "diff_network_interfaces p n c =
     (if truthy (vp_network_interface_names p)
         \<and> set (map if_id (vd_network_interfaces (c_vm_dict c))) \<noteq> set (nz_network_interfaces n)
      then c\<lparr> c_differences := c_differences c @ [''Network Interfaces''],
              c_vm_dict := (c_vm_dict c)\<lparr> vd_network_interfaces :=
                 map (\<lambda>i. \<lparr> if_id = i, if_name = None, if_properties = None \<rparr>)
                   (nz_network_interfaces n) \<rparr>,
              c_changed := True \<rparr>
      else c)"

definition diff_vm_size :: "vm_params \<Rightarrow> compared \<Rightarrow> compared" where
  "diff_vm_size p c =
     (if truthy (vp_vm_size p) \<and> the (vp_vm_size p) \<noteq> vd_vm_size (c_vm_dict c)
      then c\<lparr> c_differences := c_differences c @ [''VM Size''],
              c_vm_dict := (c_vm_dict c)\<lparr> vd_vm_size := the (vp_vm_size p) \<rparr>,
              c_changed := True \<rparr>
      else c)"

definition diff_image :: "normalized \<Rightarrow> compared \<Rightarrow> compared" where
  "diff_image n c =
     (case nz_image n of
        None \<Rightarrow> c
      | Some img \<Rightarrow>
          (let cur = vd_image_reference (c_vm_dict c);
               c1 = (if ir_publisher img \<noteq> ir_publisher cur \<or> ir_offer img \<noteq> ir_offer cur
                        \<or> ir_sku img \<noteq> ir_sku cur
                     then c\<lparr> c_differences := c_differences c @ [''Image''],
                             c_vm_dict := (c_vm_dict c)\<lparr> vd_image_reference :=
                                cur\<lparr> ir_publisher := ir_publisher img, ir_offer := ir_offer img,
                                     ir_sku := ir_sku img \<rparr> \<rparr>,
                             c_changed := True \<rparr>
                     else c);
               cur1 = vd_image_reference (c_vm_dict c1)
           in if ir_version img \<noteq> ir_version cur1
              then c1\<lparr> c_differences := c_differences c1 @ [''Image versions''],
                       c_vm_dict := (c_vm_dict c1)\<lparr> vd_image_reference :=
                          cur1\<lparr> ir_version := ir_version img \<rparr> \<rparr>,
                       c_changed := True \<rparr>
              else c1))"

definition diff_os_disk_caching :: "vm_params \<Rightarrow> compared \<Rightarrow> compared" where
  "diff_os_disk_caching p c =
     (if truthy (vp_os_disk_caching p)
         \<and> the (vp_os_disk_caching p) \<noteq> od_caching (vd_os_disk (c_vm_dict c))
      then c\<lparr> c_differences := c_differences c @ [''OS Disk caching''],
              c_changed := True,
              c_vm_dict := (c_vm_dict c)\<lparr> vd_os_disk :=
                 (vd_os_disk (c_vm_dict c))\<lparr> od_caching := the (vp_os_disk_caching p) \<rparr> \<rparr> \<rparr>
      else c)"

text \<open>\<^verbatim>\<open>vm_dict.get('tags', dict())\<close> is the empty dictionary when the key is absent.\<close>

definition diff_vm_tags :: "vm_env \<Rightarrow> vm_params \<Rightarrow> compared \<Rightarrow> compared" where
  "diff_vm_tags e p c =
     (case ve_update_tags e (vp_tags p)
             (case vd_tags (c_vm_dict c) of None \<Rightarrow> Some [] | Some t \<Rightarrow> t) of
        (update_tags, new_tags) \<Rightarrow>
          (let c1 = c\<lparr> c_vm_dict := (c_vm_dict c)\<lparr> vd_tags := Some new_tags \<rparr> \<rparr>
           in if update_tags
              then c1\<lparr> c_differences := c_differences c1 @ [''Tags''], c_changed := True \<rparr>
              else c1))"

definition diff_short_hostname :: "vm_params \<Rightarrow> compared \<Rightarrow> compared" where
  "diff_short_hostname p c =
     (if truthy (vp_short_hostname p)
         \<and> the (vp_short_hostname p) \<noteq> op_computer_name (vd_os_profile (c_vm_dict c))
      then c\<lparr> c_differences := c_differences c @ [''Short Hostname''],
              c_changed := True,
              c_vm_dict := (c_vm_dict c)\<lparr> vd_os_profile :=
                 (vd_os_profile (c_vm_dict c))\<lparr> op_computer_name := the (vp_short_hostname p) \<rparr> \<rparr> \<rparr>
      else c)"

definition diff_power_state :: "vm_params \<Rightarrow> compared \<Rightarrow> compared" where
  "diff_power_state p c =
     (if vp_state p = StStarted \<and> vd_power_state (c_vm_dict c) \<noteq> Some ''running''
      then c\<lparr> c_changed := True, c_powerstate_change := Some ''poweron'' \<rparr>
      else if vp_state p = StStopped \<and> vd_power_state (c_vm_dict c) = Some ''running''
      then c\<lparr> c_changed := True, c_powerstate_change := Some ''poweroff'' \<rparr>
      else c)"

definition diff_vm :: "vm_env \<Rightarrow> vm_params \<Rightarrow> normalized \<Rightarrow> vm_dict \<Rightarrow> compared" where
  "diff_vm e p n vm_dict =
     diff_power_state p
       (diff_short_hostname p
         (diff_vm_tags e p
           (diff_os_disk_caching p
             (diff_image n
               (diff_vm_size p
                 (diff_network_interfaces p n
                    \<lparr> c_vm_dict = vm_dict, c_differences = [], c_changed = False,
                      c_powerstate_change = None \<rparr>))))))"

text \<open>Lines 615 to 723: fetch, serialize and compare.  Only a \<^verbatim>\<open>CloudError\<close> of the
  fetch is taken as "the machine does not exist".\<close>

record compared_vm =
  f_vm :: "vm_obj option"
  f_vm_dict :: "vm_dict option"
  f_changed :: bool
  f_differences :: "string list option"
  f_powerstate_change :: "string option"
  f_results :: "vm_dict option"

definition fetch_and_compare ::
  "vm_env \<Rightarrow> vm_params \<Rightarrow> normalized \<Rightarrow> vm_call list \<Rightarrow> error + compared_vm" where
  "fetch_and_compare e p n h =
     (case ve_vm_get e h of
        OtherError \<Rightarrow> Inl (Raised ''virtual_machines.get'')
      | CloudError \<Rightarrow>
          Inr \<lparr> f_vm = None, f_vm_dict = None, f_changed = (vp_state p \<noteq> StAbsent),
                f_differences = None, f_powerstate_change = None, f_results = None \<rparr>
      | Found vm \<Rightarrow>
          if \<not> ve_provisioning_ok e (m_provisioning_state vm) (Some (vp_state p))
          then Inl (Fail ''Error: provisioning state'')
          else
            and_then (serialize_vm e p h vm) (\<lambda>vm_dict.
              if vp_state p \<noteq> StAbsent then
                (let c = diff_vm e p n vm_dict in
                 Inr \<lparr> f_vm = Some vm, f_vm_dict = Some (c_vm_dict c), f_changed = c_changed c,
                       f_differences = Some (c_differences c),
                       f_powerstate_change = c_powerstate_change c,
                       f_results = Some (c_vm_dict c) \<rparr>)
              else
                Inr \<lparr> f_vm = Some vm, f_vm_dict = Some vm_dict, f_changed = True,
                      f_differences = None, f_powerstate_change = None, f_results = None \<rparr>))"

section \<open>Virtual machine module: applying\<close>

fun for_each :: "('a \<Rightarrow> unit step) \<Rightarrow> 'a list \<Rightarrow> unit step" where
  "for_each f [] = pure ()"
| "for_each f (x # xs) = next_step (f x) (\<lambda>_. for_each f xs)"

definition create_or_update_vm :: "vm_env \<Rightarrow> vm_params \<Rightarrow> vm_resource \<Rightarrow> vm_dict step" where
  "create_or_update_vm e p params =
     next_step (issue e (CreateOrUpdateVM params)
                  (''Error creating or updating virtual machine '' @ vp_name p)) (\<lambda>_.
     next_step calls_so_far (\<lambda>h.
     next_step (lift (get_vm e h)) (\<lambda>vm. lift (serialize_vm e p h vm))))"

definition power_on_vm :: "vm_env \<Rightarrow> vm_params \<Rightarrow> unit step" where
  "power_on_vm e p =
     next_step (action (''Powered on virtual machine '' @ vp_name p)) (\<lambda>_.
       issue e Start (''Error powering on virtual machine '' @ vp_name p))"

definition power_off_vm :: "vm_env \<Rightarrow> vm_params \<Rightarrow> unit step" where
  "power_off_vm e p =
     next_step (action (''Powered off virtual machine '' @ vp_name p)) (\<lambda>_.
       issue e PowerOff (''Error powering off virtual machine '' @ vp_name p))"

definition refresh_results :: "vm_env \<Rightarrow> vm_params \<Rightarrow> unit step" where
  "refresh_results e p =
     next_step calls_so_far (\<lambda>h.
     next_step (lift (get_vm e h)) (\<lambda>vm.
     next_step (lift (serialize_vm e p h vm)) set_results))"

text \<open>Lines 884 to 893: the power state the machine is left in.  The test reads the power
  state of \<^verbatim>\<open>self.results['results']\<close>, which an update has just refreshed.\<close>

definition reported_power_state :: "(string option) step" where
  "reported_power_state w =
     (case s_results (w_results w) of
        None \<Rightarrow> (Inl (KeyError ''power_state''), w)
      | Some d \<Rightarrow> (Inr (vd_power_state d), w))"

definition apply_power_state :: "vm_env \<Rightarrow> vm_params \<Rightarrow> string option \<Rightarrow> unit step" where
  "apply_power_state e p powerstate_change =
     (if powerstate_change = Some ''poweron'' then
        next_step reported_power_state (\<lambda>power.
          if power \<noteq> Some ''running''
          then next_step (power_on_vm e p) (\<lambda>_. refresh_results e p)
          else pure ())
      else if powerstate_change = Some ''poweroff'' then
        next_step reported_power_state (\<lambda>power.
          if power = Some ''running''
          then next_step (power_off_vm e p) (\<lambda>_. refresh_results e p)
          else pure ())
      else pure ())"

text \<open>Lines 814 to 882: the update of an existing machine, built from the compared
  dictionary alone.  Each current public key is appended to \<^verbatim>\<open>ssh.public_keys\<close> as an
  \<^verbatim>\<open>SshConfiguration\<close> object (lines 872 to 879), where the creation of a machine uses
  \<^verbatim>\<open>SshPublicKey\<close>.\<close>

definition linux_configuration_given :: "linux_configuration option \<Rightarrow> bool" where
  "linux_configuration_given lc =
     (case lc of
        None \<Rightarrow> False
      | Some c \<Rightarrow> lc_disable_password_authentication c \<noteq> None \<or> lc_public_keys c \<noteq> None)"

definition update_resource :: "vm_dict \<Rightarrow> vm_resource" where
  "update_resource vm_dict =
     \<lparr> vr_id = Some (vd_id vm_dict),
       vr_location = vd_location vm_dict,
       vr_name = vd_name vm_dict,
       vr_type = Some (vd_type vm_dict),
       vr_tags = (case vd_tags vm_dict of Some (Some t) \<Rightarrow> if t \<noteq> [] then Some t else None
                  | _ \<Rightarrow> None),
       vr_admin_username = op_admin_username (vd_os_profile vm_dict),
       vr_computer_name = op_computer_name (vd_os_profile vm_dict),
       vr_admin_password =
         (if truthy (op_admin_password (vd_os_profile vm_dict))
          then op_admin_password (vd_os_profile vm_dict) else None),
       vr_linux_configuration =
         (if linux_configuration_given (op_linux_configuration (vd_os_profile vm_dict)) then
            (let lc = the (op_linux_configuration (vd_os_profile vm_dict)) in
             Some \<lparr> pc_disable_password_authentication =
                      Some (case lc_disable_password_authentication lc of
                              None \<Rightarrow> False | Some b \<Rightarrow> b),
                    pc_public_keys =
                      (if truthy (lc_public_keys lc)
                       then Some (map (\<lambda>key. SshConfiguration (k_path key) (k_key_data key))
                                    (the (lc_public_keys lc)))
                       else None) \<rparr>)
          else None),
       vr_vm_size = Some (vd_vm_size vm_dict),
       vr_os_disk =
         \<lparr> pd_name = Some (od_name (vd_os_disk vm_dict)),
           pd_vhd_uri = Some (od_vhd_uri (vd_os_disk vm_dict)),
           pd_create_option = od_create_option (vd_os_disk vm_dict),
           pd_os_type = Some (od_os_type (vd_os_disk vm_dict)),
           pd_caching = Some (od_caching (vd_os_disk vm_dict)) \<rparr>,
       vr_image_reference = vd_image_reference vm_dict,
       vr_network_interfaces = map if_id (vd_network_interfaces vm_dict) \<rparr>"

definition update_vm :: "vm_env \<Rightarrow> vm_params \<Rightarrow> vm_dict \<Rightarrow> unit step" where
  "update_vm e p vm_dict =
     next_step (action (''Updated VM '' @ vp_name p)) (\<lambda>_.
     next_step (create_or_update_vm e p (update_resource vm_dict)) set_results)"

text \<open>Lines 1134 to 1164.\<close>

definition create_default_storage_account :: "vm_env \<Rightarrow> vm_params \<Rightarrow> storage_obj step" where
  "create_default_storage_account e p =
     (let storage_account_name = vp_name p @ ''01'' in
      next_step calls_so_far (\<lambda>h.
        case ve_storage_get e h storage_account_name of
          OtherError \<Rightarrow> failing (Raised ''storage_accounts.get_properties'')
        | Found account \<Rightarrow>
            if ve_provisioning_ok e (sa_provisioning_state account) None
            then pure account
            else failing (Fail ''Error: provisioning state'')
        | CloudError \<Rightarrow>
            next_step (action (''Created storage account '' @ storage_account_name)) (\<lambda>_.
            next_step (issue e (CreateStorageAccount storage_account_name)
                         (''Failed to create storage account: '' @ storage_account_name)) (\<lambda>_.
            next_step calls_so_far (\<lambda>h'.
              lift (get_storage_account e h' storage_account_name))))))"

text \<open>Lines 1166 to 1279.  \<^verbatim>\<open>create_default_pip\<close> and \<^verbatim>\<open>create_default_securitygroup\<close>
  belong to the common base class; each is recorded as one changing call.\<close>

definition find_virtual_network :: "vm_env \<Rightarrow> vm_params \<Rightarrow> error + string" where
  "find_virtual_network e p =
     (if truthy (vp_virtual_network_name p) then
        (if ve_vnet_named e (the (vp_virtual_network_name p))
         then Inr (the (vp_virtual_network_name p))
         else Inl (Fail (''Error: fetching virtual network '' @ the (vp_virtual_network_name p))))
      else
        (case ve_vnet_list e of
           OtherError \<Rightarrow> Inl (Raised ''virtual_networks.list'')
         | CloudError \<Rightarrow> Inl (Fail ''Error: unable to find virtual network in resource group'')
         | Found names \<Rightarrow>
             (case names of
                [] \<Rightarrow> Inl (Fail ''Error: unable to find virtual network in resource group'')
              | name # _ \<Rightarrow>
                  if name = [] then Inl (Fail ''Error: unable to find virtual network in resource group'')
                  else Inr name)))"

definition find_subnet :: "vm_env \<Rightarrow> vm_params \<Rightarrow> string \<Rightarrow> error + string" where
  "find_subnet e p virtual_network_name =
     (if truthy (vp_subnet_name p) then
        (case ve_subnet_get e virtual_network_name of
           None \<Rightarrow> Inl (Fail (''Error: fetching subnet '' @ the (vp_subnet_name p)))
         | Some subnet_id \<Rightarrow> Inr subnet_id)
      else
        (case ve_subnet_list e virtual_network_name of
           OtherError \<Rightarrow> Inl (Raised ''subnets.list'')
         | CloudError \<Rightarrow> Inl (Fail ''Error: unable to find a subnet in virtual network'')
         | Found ids \<Rightarrow>
             (case ids of
                [] \<Rightarrow> Inl (Fail ''Error: unable to find a subnet in virtual network'')
              | subnet_id # _ \<Rightarrow>
                  if subnet_id = [] then Inl (Fail ''Error: unable to find a subnet in virtual network'')
                  else Inr subnet_id)))"

definition create_default_nic :: "vm_env \<Rightarrow> vm_params \<Rightarrow> nic_obj step" where
  "create_default_nic e p =
     (let network_interface_name = vp_name p @ ''01'' in
      next_step calls_so_far (\<lambda>h.
        case ve_nic_get e h network_interface_name of
          OtherError \<Rightarrow> failing (Raised ''network_interfaces.get'')
        | Found nic \<Rightarrow>
            if ve_provisioning_ok e (n_provisioning_state nic) None
            then pure nic
            else failing (Fail ''Error: provisioning state'')
        | CloudError \<Rightarrow>
            next_step (lift (find_virtual_network e p)) (\<lambda>virtual_network_name.
            next_step (lift (find_subnet e p virtual_network_name)) (\<lambda>subnet_id.
            next_step (action (''Creating default public IP '' @ vp_name p @ ''01'')) (\<lambda>_.
            next_step (issue e (CreateDefaultPip (vp_public_ip_allocation_method p))
                         ''Error creating default public IP'') (\<lambda>_.
            next_step calls_so_far (\<lambda>h1.
            next_step (action (''Created default security group '' @ vp_name p @ ''01'')) (\<lambda>_.
            next_step (issue e (CreateDefaultSecurityGroup (vp_os_type p) (vp_ssh_port p) (vp_rdp_port p))
                         ''Error creating default security group'') (\<lambda>_.
            next_step calls_so_far (\<lambda>h2.
            next_step (action (''Created NIC '' @ network_interface_name)) (\<lambda>_.
            next_step (issue e (CreateNic network_interface_name subnet_id
                                  (ve_default_securitygroup e h2) (ve_default_pip e h1))
                         (''Error creating network interface '' @ network_interface_name)) (\<lambda>_.
            next_step calls_so_far (\<lambda>h3. pure (ve_created_nic e h3))))))))))))))"

text \<open>Lines 731 to 812: the creation of a machine that does not exist.\<close>

definition entry_key :: "ssh_entry \<Rightarrow> payload_key" where
  "entry_key key =
     (case key of
        KeyDict (Some path) (Some key_data) \<Rightarrow> SshPublicKey path key_data
      | _ \<Rightarrow> SshPublicKey [] [])"

definition create_vm :: "vm_env \<Rightarrow> vm_params \<Rightarrow> normalized \<Rightarrow> unit step" where
  "create_vm e p n =
     next_step (action (''Created VM '' @ vp_name p)) (\<lambda>_.
     if \<not> truthy (vp_admin_username p)
     then failing (Fail ''Parameter error: admin_username required when creating a virtual machine.'')
     else if vp_os_type p = Linux \<and> nz_disable_ssh_password n = Some True
             \<and> \<not> truthy (vp_ssh_public_keys p)
     then failing (Fail ''Parameter error: ssh_public_keys required when disabling SSH password.'')
     else
       (case nz_image n of
          None \<Rightarrow> failing (Fail ''Parameter error: an image is required when creating a virtual machine.'')
        | Some img \<Rightarrow>
            next_step (if \<not> truthy (vp_network_interface_names p)
                       then next_step (create_default_nic e p) (\<lambda>default_nic. pure [n_id default_nic])
                       else pure (nz_network_interfaces n)) (\<lambda>network_interfaces.
            next_step (if \<not> truthy (vp_storage_account_name p)
                       then next_step (create_default_storage_account e p) (\<lambda>storage_account.
                              pure (Some (vhd_uri (sa_name storage_account)
                                            (vp_storage_container_name p)
                                            (case nz_storage_blob_name n of None \<Rightarrow> ''None'' | Some b \<Rightarrow> b))))
                       else pure (nz_requested_vhd_uri n)) (\<lambda>requested_vhd_uri.
              if vp_os_type p = Windows \<and> truthy (vp_ssh_public_keys p)
              then failing (AttributeError ''ssh'')
              else
                next_step (create_or_update_vm e p
                  \<lparr> vr_id = None,
                    vr_location = nz_location n,
                    vr_name = vp_name p,
                    vr_type = None,
                    vr_tags = vp_tags p,
                    vr_admin_username = the (vp_admin_username p),
                    vr_computer_name = (if truthy (vp_short_hostname p)
                                        then the (vp_short_hostname p) else vp_name p),
                    vr_admin_password = (if truthy (vp_admin_password p)
                                         then vp_admin_password p else None),
                    vr_linux_configuration =
                      (if vp_os_type p = Linux
                       then Some \<lparr> pc_disable_password_authentication = nz_disable_ssh_password n,
                                   pc_public_keys =
                                     (if truthy (vp_ssh_public_keys p)
                                      then Some (map entry_key (the (vp_ssh_public_keys p)))
                                      else None) \<rparr>
                       else None),
                    vr_vm_size = vp_vm_size p,
                    vr_os_disk =
                      \<lparr> pd_name = nz_storage_blob_name n,
                        pd_vhd_uri = requested_vhd_uri,
                        pd_create_option = ''fromImage'',
                        pd_os_type = None,
                        pd_caching = vp_os_disk_caching p \<rparr>,
                    vr_image_reference = img,
                    vr_network_interfaces = network_interfaces \<rparr>) set_results))))"

text \<open>
  \<^verbatim>\<open>extract_names_from_blob_uri\<close>: the three groups of
  \<^verbatim>\<open>^https://([^\.]+)\.blob\.core\.windows\.net/([^/]+)/(.+)$\<close>, or \<open>None\<close> when the
  pattern does not match and the function raises.  The first group stops at the first
  dot and the second at the first slash; the last takes the rest, which holds no newline
  apart from one that ends the string.
\<close>

definition extract_names_from_blob_uri :: "string \<Rightarrow> (string \<times> string \<times> string) option" where
  "extract_names_from_blob_uri blob_uri =
     (if \<not> startswith blob_uri ''https://'' then None
      else
        (let rest = drop 8 blob_uri;
             accountname = takeWhile (\<lambda>c. c \<noteq> CHR ''.'') rest;
             rest1 = dropWhile (\<lambda>c. c \<noteq> CHR ''.'') rest
         in if accountname = [] \<or> \<not> startswith rest1 ''.blob.core.windows.net/'' then None
            else
              (let rest2 = drop 23 rest1;
                   containername = takeWhile (\<lambda>c. c \<noteq> CHR ''/'') rest2;
                   rest3 = dropWhile (\<lambda>c. c \<noteq> CHR ''/'') rest2
               in if containername = [] \<or> rest3 = [] then None
                  else
                    (let tail = tl rest3;
                         blobname = (if tail \<noteq> [] \<and> last tail = CHR 0x0A then butlast tail else tail)
                     in if blobname = [] \<or> CHR 0x0A \<in> set blobname then None
                        else Some (accountname, containername, blobname)))))"

text \<open>Lines 1040 to 1076.\<close>

definition delete_nic :: "vm_env \<Rightarrow> string \<Rightarrow> unit step" where
  "delete_nic e name =
     next_step (action (''Deleted network interface '' @ name)) (\<lambda>_.
       issue e (DeleteNic name) (''Error deleting network interface '' @ name))"

definition delete_pip :: "vm_env \<Rightarrow> string \<Rightarrow> unit step" where
  "delete_pip e name =
     next_step (action (''Deleted public IP '' @ name)) (\<lambda>_.
       issue e (DeletePip name) (''Error deleting '' @ name))"

definition delete_blob :: "vm_env \<Rightarrow> string \<Rightarrow> unit step" where
  "delete_blob e uri =
     (case extract_names_from_blob_uri uri of
        None \<Rightarrow> failing (Raised (''unable to parse blob uri '' @ uri))
      | Some (storage_account_name, container_name, blob_name) \<Rightarrow>
          next_step calls_so_far (\<lambda>h.
            if \<not> ve_blob_client e h storage_account_name
            then failing (Fail ''Error: blob client'')
            else
              next_step (action (''Deleted blob '' @ container_name @ '':'' @ blob_name)) (\<lambda>_.
                issue e (DeleteBlob storage_account_name container_name blob_name)
                  (''Error deleting blob '' @ container_name @ '':'' @ blob_name))))"

definition delete_vm_storage :: "vm_env \<Rightarrow> string list \<Rightarrow> unit step" where
  "delete_vm_storage e vhd_uris = for_each (delete_blob e) vhd_uris"

text \<open>Lines 975 to 1031.  The names are collected first, the machine is deleted and
  waited for, and then the blob, the interfaces and the public IPs are deleted.\<close>

definition public_ip_names :: "vm_env \<Rightarrow> vm_call list \<Rightarrow> string \<Rightarrow> error + string list" where
  "public_ip_names e h name =
     and_then (get_network_interface e h name) (\<lambda>nic.
       map_err (\<lambda>pip_id. id_part e pip_id ''publicIPAddresses'')
         (map the (filter (\<lambda>ipc. ipc \<noteq> None) (n_ip_configurations nic))))"

definition collect_names ::
  "vm_env \<Rightarrow> vm_params \<Rightarrow> vm_obj \<Rightarrow> (string list \<times> string list \<times> string list) step" where
  "collect_names e p vm =
     next_step (if vp_delete_virtual_storage p
                then (\<lambda>w. (Inr [od_vhd_uri (m_os_disk vm)],
                            w\<lparr> w_results := (w_results w)\<lparr> s_deleted_vhd_uris :=
                                 Some [od_vhd_uri (m_os_disk vm)] \<rparr> \<rparr>))
                else pure []) (\<lambda>vhd_uris.
     if vp_delete_network_interfaces p then
       next_step (lift (map_err (\<lambda>i. id_part e i ''networkInterfaces'') (m_network_interfaces vm)))
         (\<lambda>nic_names.
       next_step (\<lambda>w. (Inr (), w\<lparr> w_results := (w_results w)\<lparr> s_deleted_network_interfaces :=
                                    Some nic_names \<rparr> \<rparr>)) (\<lambda>_.
       if vp_delete_public_ips p then
         next_step calls_so_far (\<lambda>h.
         next_step (lift (map_err (public_ip_names e h) nic_names)) (\<lambda>found.
         next_step (\<lambda>w. (Inr (), w\<lparr> w_results := (w_results w)\<lparr> s_deleted_public_ips :=
                                      Some (concat found) \<rparr> \<rparr>)) (\<lambda>_.
           pure (vhd_uris, nic_names, concat found))))
       else pure (vhd_uris, nic_names, [])))
     else pure (vhd_uris, [], []))"

definition delete_vm :: "vm_env \<Rightarrow> vm_params \<Rightarrow> vm_obj \<Rightarrow> unit step" where
  "delete_vm e p vm =
     next_step (collect_names e p vm) (\<lambda>(vhd_uris, nic_names, pip_names).
     next_step (action (''Deleted virtual machine '' @ vp_name p)) (\<lambda>_.
     next_step (issue e DeleteVM (''Error deleting virtual machine '' @ vp_name p)) (\<lambda>_.
     next_step (if vp_delete_virtual_storage p then delete_vm_storage e vhd_uris else pure ()) (\<lambda>_.
     next_step (if vp_delete_network_interfaces p then for_each (delete_nic e) nic_names
                else pure ()) (\<lambda>_.
       if vp_delete_public_ips p then for_each (delete_pip e) pip_names else pure ())))))"

text \<open>Lines 728 to 898: what is done once a change has been found.\<close>

definition apply_changes :: "vm_env \<Rightarrow> vm_params \<Rightarrow> normalized \<Rightarrow> compared_vm \<Rightarrow> unit step" where
  "apply_changes e p n f =
     (if f_changed f then
        (if vp_state p \<noteq> StAbsent then
           next_step
             (case f_vm f of
                None \<Rightarrow> create_vm e p n
              | Some vm \<Rightarrow>
                  if truthy (f_differences f)
                  then (case f_vm_dict f of
                          None \<Rightarrow> failing (TypeError ''vm_dict'')
                        | Some vm_dict \<Rightarrow> update_vm e p vm_dict)
                  else pure ())
             (\<lambda>_. apply_power_state e p (f_powerstate_change f))
         else
           (case f_vm f of
              None \<Rightarrow> failing (AttributeError ''storage_profile'')
            | Some vm \<Rightarrow> delete_vm e p vm))
      else pure ())"

definition finish :: "(error + unit) \<times> vm_world \<Rightarrow> vm_run" where
  "finish r =
     (case r of (outcome, w) \<Rightarrow>
        \<lparr> x_failed = (case outcome of Inl err \<Rightarrow> Some err | Inr _ \<Rightarrow> None),
          x_results = w_results w, x_calls = w_calls w \<rparr>)"

definition initial_results :: vm_results where
  "initial_results =
     \<lparr> s_changed = False, s_actions = [], s_differences = None, s_powerstate_change = None,
       s_results = None, s_deleted_vhd_uris = None, s_deleted_network_interfaces = None,
       s_deleted_public_ips = None \<rparr>"

text \<open>\<^verbatim>\<open>exec_module_impl\<close> of the virtual machine module, started when the calls \<open>h\<close>
  have already been issued.\<close>

definition exec_vm :: "vm_env \<Rightarrow> vm_params \<Rightarrow> vm_call list \<Rightarrow> vm_run" where
  "exec_vm e p h =
     (case check_parameters e p h of
        Inl err \<Rightarrow> finish (Inl err, \<lparr> w_results = initial_results, w_calls = h \<rparr>)
      | Inr n \<Rightarrow>
          (case fetch_and_compare e p n h of
             Inl err \<Rightarrow> finish (Inl err, \<lparr> w_results = initial_results, w_calls = h \<rparr>)
           | Inr f \<Rightarrow>
               (let res = initial_results\<lparr> s_differences := f_differences f,
                                           s_changed := f_changed f,
                                           s_results := f_results f,
                                           s_powerstate_change := f_powerstate_change f \<rparr>;
                    w = \<lparr> w_results = res, w_calls = h \<rparr>
                in if vp_check_mode p then finish (Inr (), w)
                   else finish (apply_changes e p n f w))))"

section \<open>Reference collaborators for concrete runs\<close>

text \<open>
  Modelled from the spec: \<^verbatim>\<open>update_tags\<close> of the common base class, which is not among the
  sources.  Tags are a mapping diff with an independent purge flag: desired entries are
  merged into the current ones, or replace them when the flag is set; with no desired
  tags nothing changes.
\<close>

definition update_tags :: "bool \<Rightarrow> tags option \<Rightarrow> tags option \<Rightarrow> bool \<times> tags option" where
  "update_tags purge desired current =
     (case desired of
        None \<Rightarrow> (False, current)
      | Some want \<Rightarrow>
          (let have = (case current of None \<Rightarrow> [] | Some c \<Rightarrow> c);
               kept = (if purge then [] else filter (\<lambda>kv. fst kv \<notin> fst ` set want) have);
               differs = (list_ex (\<lambda>kv. map_of have (fst kv) \<noteq> Some (snd kv)) want
                          \<or> (purge \<and> list_ex (\<lambda>kv. fst kv \<notin> fst ` set want) have))
           in (differs, Some (kept @ want))))"

text \<open>
  Modelled from the spec: \<^verbatim>\<open>CIDR_PATTERN\<close> of the common base class, which is not among
  the sources.  CIDR syntax is an address (four decimal octets) plus a prefix length.
\<close>

fun split_on :: "char \<Rightarrow> string \<Rightarrow> string list" where
  "split_on sep [] = [[]]"
| "split_on sep (c # cs) =
     (if c = sep then [] # split_on sep cs
      else (case split_on sep cs of [] \<Rightarrow> [[c]] | w # ws \<Rightarrow> (c # w) # ws))"

definition digit_value :: "char \<Rightarrow> nat" where
  "digit_value c = of_char c - of_char CHR ''0''"

definition decimal_upto :: "nat \<Rightarrow> string \<Rightarrow> bool" where
  "decimal_upto bound s =
     (s \<noteq> [] \<and> length s \<le> 3 \<and> list_all (in_range CHR ''0'' CHR ''9'') s
      \<and> foldl (\<lambda>n c. 10 * n + digit_value c) 0 s \<le> bound)"

definition cidr_syntax :: "string \<Rightarrow> bool" where
  "cidr_syntax s =
     (case split_on CHR ''/'' s of
        [address, len] \<Rightarrow>
          decimal_upto 32 len \<and>
          (case split_on CHR ''.'' address of
             [a, b, c, d] \<Rightarrow> list_all (decimal_upto 255) [a, b, c, d]
           | _ \<Rightarrow> False)
      | _ \<Rightarrow> False)"

text \<open>
  A reference control plane for concrete runs (the service itself is an external
  collaborator): it holds at most one virtual network, \<^verbatim>\<open>create_or_update\<close> stores what
  it is sent and answers with what it then holds, \<^verbatim>\<open>delete\<close> removes it, and no call
  fails.
\<close>

definition new_vnet :: vnet_obj where
  "new_vnet = \<lparr> v_id = ''/subscriptions/s/resourceGroups/Testing/providers/Microsoft.Network/virtualNetworks/vnet'',
     v_name = ''vnet'', v_location = ''eastus'', v_type = ''Microsoft.Network/virtualNetworks'',
     v_tags = None, v_provisioning_state = ''Succeeded'', v_etag = ''W/0'',
     v_dhcp_options = Some [], v_address_space = Some [] \<rparr>"

definition stored :: "vnet_obj option \<Rightarrow> vnet_payload \<Rightarrow> vnet_obj" where
  "stored held vnet =
     (case held of None \<Rightarrow> new_vnet | Some v \<Rightarrow> v)
       \<lparr> v_location := pl_location vnet, v_tags := pl_tags vnet,
         v_dhcp_options := Some (case pl_dhcp_options vnet of None \<Rightarrow> [] | Some servers \<Rightarrow> servers),
         v_address_space := Some (pl_address_prefixes vnet) \<rparr>"

fun held_after :: "vnet_obj option \<Rightarrow> vnet_call list \<Rightarrow> vnet_obj option" where
  "held_after held [] = held"
| "held_after held (CreateOrUpdate vnet # calls) = held_after (Some (stored held vnet)) calls"
| "held_after held (Delete # calls) = held_after None calls"

definition control_plane :: "vnet_obj option \<Rightarrow> vnet_env" where
  "control_plane held =
     \<lparr> e_resource_group = Some ''eastus'',
       e_CIDR_PATTERN = cidr_syntax,
       e_get = (\<lambda>h. case held_after held h of None \<Rightarrow> CloudError | Some v \<Rightarrow> Found v),
       e_check_provisioning_state = (\<lambda>v st. st = Absent \<or> v_provisioning_state v = ''Succeeded''),
       e_update_tags = update_tags False,
       e_create_or_update = (\<lambda>h vnet. Some (stored (held_after held h) vnet)),
       e_delete = (\<lambda>h. True) \<rparr>"

text \<open>The inputs of the concrete runs.\<close>

definition one_prefix_vnet :: vnet_obj where
  "one_prefix_vnet = new_vnet\<lparr> v_dhcp_options := Some [''10.0.0.4''],
                               v_address_space := Some [''10.0.0.0/16''] \<rparr>"

definition two_prefix_vnet :: vnet_obj where
  "two_prefix_vnet = new_vnet\<lparr> v_dhcp_options := Some [''10.0.0.4''],
                               v_address_space := Some [''10.0.0.0/16'', ''10.1.0.0/16''] \<rparr>"

definition no_dns_vnet :: vnet_obj where
  "no_dns_vnet = new_vnet\<lparr> v_address_space := Some [''10.0.0.0/16''] \<rparr>"

definition want :: vnet_params where
  "want = \<lparr> p_name = ''vnet'', p_state = Present, p_location = None,
            p_address_prefixes_cidr = None, p_dns_servers = None,
            p_purge_address_prefixes = False, p_purge_dns_servers = False,
            p_tags = None, p_check_mode = False \<rparr>"

text \<open>
  Modelled from the spec: \<^verbatim>\<open>azure_id_to_dict\<close> of the common base module, which is not
  among the sources.  A resource path
  \<^verbatim>\<open>/subscriptions/{sub}/resourceGroups/{rg}/providers/{provider}/{type}/{name}\<close> is read
  as the pairs of its consecutive segments.
\<close>

fun segment_pairs :: "string list \<Rightarrow> (string \<times> string) list" where
  "segment_pairs (k # v # rest) = (k, v) # segment_pairs rest"
| "segment_pairs _ = []"

definition azure_id_to_dict :: "string \<Rightarrow> (string \<times> string) list" where
  "azure_id_to_dict ident = segment_pairs (filter (\<lambda>seg. seg \<noteq> []) (split_on CHR ''/'' ident))"

text \<open>
  A reference control plane for concrete runs of the virtual machine module: one
  machine at most, one network interface \<open>testvm01\<close> with one public IP \<open>testvm01\<close>, one
  storage account.  A created or updated machine is left running, as the module's
  documentation says; starting and powering off set the power state; no call fails.
\<close>

definition interface_id :: string where
  "interface_id = ''/subscriptions/s/resourceGroups/Testing/providers/Microsoft.Network/networkInterfaces/testvm01''"

definition public_ip_id :: string where
  "public_ip_id = ''/subscriptions/s/resourceGroups/Testing/providers/Microsoft.Network/publicIPAddresses/testvm01''"

definition stopped_vm :: vm_obj where
  "stopped_vm =
     \<lparr> m_id = ''/subscriptions/s/resourceGroups/Testing/providers/Microsoft.Compute/virtualMachines/testvm'',
       m_name = ''testvm'', m_location = ''eastus'', m_type = ''Microsoft.Compute/virtualMachines'',
       m_tags = None, m_provisioning_state = ''Succeeded'',
       m_statuses = [''ProvisioningState/succeeded'', ''PowerState/deallocated''],
       m_vm_size = ''Standard_D1'',
       m_image_reference = \<lparr> ir_publisher = ''OpenLogic'', ir_offer = ''CentOS'', ir_sku = ''7.1'',
                              ir_version = ''7.1.20160308'' \<rparr>,
       m_os_disk = \<lparr> od_name = ''testvm.vhd'',
                      od_vhd_uri = ''https://testvm01.blob.core.windows.net/vhds/testvm.vhd'',
                      od_create_option = ''fromImage'', od_os_type = ''Linux'',
                      od_caching = ''ReadOnly'' \<rparr>,
       m_os_profile = \<lparr> op_admin_username = ''chouseknecht'', op_computer_name = ''testvm'',
                         op_admin_password = None,
                         op_linux_configuration =
                           Some \<lparr> lc_disable_password_authentication = Some False,
                                  lc_public_keys = None \<rparr> \<rparr>,
       m_network_interfaces = [interface_id] \<rparr>"

definition running_vm :: vm_obj where
  "running_vm = stopped_vm\<lparr> m_statuses := [''ProvisioningState/succeeded'', ''PowerState/running''] \<rparr>"

text \<open>The reference control plane stores the entries that are public keys.\<close>

fun stored_keys :: "payload_key list \<Rightarrow> ssh_public_key list" where
  "stored_keys [] = []"
| "stored_keys (SshPublicKey path key_data # keys) =
     \<lparr> k_path = path, k_key_data = key_data \<rparr> # stored_keys keys"
| "stored_keys (SshConfiguration path key_data # keys) = stored_keys keys"

definition machine_of :: "vm_resource \<Rightarrow> vm_obj" where
  "machine_of r =
     \<lparr> m_id = ''/subscriptions/s/resourceGroups/Testing/providers/Microsoft.Compute/virtualMachines/'' @ vr_name r,
       m_name = vr_name r, m_location = vr_location r,
       m_type = ''Microsoft.Compute/virtualMachines'',
       m_tags = map_option Some (vr_tags r), m_provisioning_state = ''Succeeded'',
       m_statuses = [''ProvisioningState/succeeded'', ''PowerState/running''],
       m_vm_size = (case vr_vm_size r of None \<Rightarrow> ''Standard_D1'' | Some sz \<Rightarrow> sz),
       m_image_reference = vr_image_reference r,
       m_os_disk = \<lparr> od_name = (case pd_name (vr_os_disk r) of None \<Rightarrow> [] | Some x \<Rightarrow> x),
                      od_vhd_uri = (case pd_vhd_uri (vr_os_disk r) of None \<Rightarrow> [] | Some x \<Rightarrow> x),
                      od_create_option = pd_create_option (vr_os_disk r),
                      od_os_type = (case pd_os_type (vr_os_disk r) of None \<Rightarrow> ''Linux'' | Some x \<Rightarrow> x),
                      od_caching = (case pd_caching (vr_os_disk r) of None \<Rightarrow> ''ReadOnly'' | Some x \<Rightarrow> x) \<rparr>,
       m_os_profile = \<lparr> op_admin_username = vr_admin_username r,
                         op_computer_name = vr_computer_name r,
                         op_admin_password = None,
                         op_linux_configuration =
                           map_option (\<lambda>c. \<lparr> lc_disable_password_authentication =
                                                pc_disable_password_authentication c,
                                              lc_public_keys =
                                                map_option stored_keys (pc_public_keys c) \<rparr>)
                             (vr_linux_configuration r) \<rparr>,
       m_network_interfaces = vr_network_interfaces r \<rparr>"

fun machine_after :: "vm_obj option \<Rightarrow> vm_call list \<Rightarrow> vm_obj option" where
  "machine_after held [] = held"
| "machine_after held (call # calls) =
     machine_after
       (case call of
          CreateOrUpdateVM r \<Rightarrow> Some (machine_of r)
        | DeleteVM \<Rightarrow> None
        | Start \<Rightarrow> map_option (\<lambda>vm. vm\<lparr> m_statuses := [''ProvisioningState/succeeded'',
                                                          ''PowerState/running''] \<rparr>) held
        | PowerOff \<Rightarrow> map_option (\<lambda>vm. vm\<lparr> m_statuses := [''ProvisioningState/succeeded'',
                                                             ''PowerState/stopped''] \<rparr>) held
        | _ \<Rightarrow> held)
       calls"

definition machine_plane :: "vm_obj option \<Rightarrow> vm_env" where
  "machine_plane held =
     \<lparr> ve_resource_group = Some ''eastus'',
       ve_sizes = (\<lambda>location. Some [''Standard_D1'', ''Standard_D2'']),
       ve_nic_get = (\<lambda>h name. if name = ''testvm01''
                      then Found \<lparr> n_id = interface_id, n_provisioning_state = ''Succeeded'',
                                   n_ip_configurations = [Some public_ip_id] \<rparr>
                      else CloudError),
       ve_pip_get = (\<lambda>h name. if name = ''testvm01'' then Some ''Static'' else None),
       ve_image_versions = (\<lambda>location publisher offer sku. Some [''7.1.20160308'']),
       ve_storage_get = (\<lambda>h name. if name = ''testvm01'' \<or> name = ''testvm02''
                      then Found \<lparr> sa_name = name, sa_provisioning_state = ''Succeeded'' \<rparr>
                      else CloudError),
       ve_vm_get = (\<lambda>h. case machine_after held h of None \<Rightarrow> CloudError | Some vm \<Rightarrow> Found vm),
       ve_provisioning_ok = (\<lambda>st requested. requested = Some StAbsent \<or> st = ''Succeeded''),
       ve_update_tags = update_tags False,
       ve_azure_id_to_dict = azure_id_to_dict,
       ve_call_ok = (\<lambda>h call. True),
       ve_blob_client = (\<lambda>h account. True),
       ve_vnet_named = (\<lambda>name. True),
       ve_vnet_list = Found [''vnet''],
       ve_subnet_get = (\<lambda>name. Some ''subnet''),
       ve_subnet_list = (\<lambda>name. Found [''subnet'']),
       ve_default_pip = (\<lambda>h. public_ip_id),
       ve_default_securitygroup = (\<lambda>h. ''group''),
       ve_created_nic = (\<lambda>h. \<lparr> n_id = interface_id, n_provisioning_state = ''Succeeded'',
                                 n_ip_configurations = [Some public_ip_id] \<rparr>) \<rparr>"

definition want_vm :: vm_params where
  "want_vm =
     \<lparr> vp_name = ''testvm'', vp_state = StStarted, vp_location = None, vp_short_hostname = None,
       vp_vm_size = Some ''Standard_D1'', vp_admin_username = None, vp_admin_password = None,
       vp_ssh_password = True, vp_ssh_public_keys = None, vp_image = None,
       vp_storage_account_name = None, vp_storage_container_name = ''vhds'',
       vp_storage_blob_name = None, vp_os_disk_caching = Some ''ReadOnly'', vp_os_type = Linux,
       vp_public_ip_allocation_method = ''Static'', vp_ssh_port = 22, vp_rdp_port = 3389,
       vp_network_interface_names = None, vp_delete_network_interfaces = False,
       vp_delete_virtual_storage = False, vp_delete_public_ips = False,
       vp_virtual_network_name = None, vp_subnet_name = None, vp_tags = None,
       vp_check_mode = False \<rparr>"

text \<open>Further inputs of the concrete runs: a deletion with all three cascade flags set,
  a control plane that refuses to delete the network interface, and the world in which
  the apply phase starts.\<close>

definition delete_all :: vm_params where
  "delete_all = want_vm\<lparr> vp_state := StAbsent, vp_delete_network_interfaces := True,
                          vp_delete_virtual_storage := True, vp_delete_public_ips := True \<rparr>"

definition refusing_plane :: vm_env where
  "refusing_plane = (machine_plane (Some running_vm))
                      \<lparr> ve_call_ok := (\<lambda>h call. call \<noteq> DeleteNic ''testvm01'') \<rparr>"

definition fresh_world :: vm_world where
  "fresh_world = \<lparr> w_results = initial_results, w_calls = [] \<rparr>"

section \<open>Notions used in the statements\<close>

text \<open>
  What "issued one after the other, stopping at the first failure" means for a list of
  changing calls: the calls that are issued, and whether all of them succeeded.
\<close>

fun issued :: "vm_env \<Rightarrow> vm_call list \<Rightarrow> vm_call list \<Rightarrow> vm_call list \<times> bool" where
  "issued e h [] = ([], True)"
| "issued e h (call # plan) =
     (if ve_call_ok e h call
      then (call # fst (issued e (h @ [call]) plan), snd (issued e (h @ [call]) plan))
      else ([call], False))"

text \<open>The cascade of a deletion with all three flags set: the machine, the blob of its
  OS disk, its network interfaces, their public IPs.\<close>

definition cascade :: "string \<times> string \<times> string \<Rightarrow> string list \<Rightarrow> string list \<Rightarrow> vm_call list" where
  "cascade blob nic_names pip_names =
     (case blob of (account, container, name) \<Rightarrow>
        DeleteVM # DeleteBlob account container name # map DeleteNic nic_names @ map DeletePip pip_names)"


text \<open>A validation failure is a \<^verbatim>\<open>self.fail\<close> whose message starts with
  \<^verbatim>\<open>Parameter error:\<close>.  A step is quiet, and a result silent, when it never fails
  that way.\<close>

definition parameter_error :: "error \<Rightarrow> bool" where
  "parameter_error err =
     (case err of Fail msg \<Rightarrow> startswith msg ''Parameter error:'' | _ \<Rightarrow> False)"

definition quiet :: "'a step \<Rightarrow> bool" where
  "quiet m = (\<forall>w err w'. m w = (Inl err, w') \<longrightarrow> \<not> parameter_error err)"

definition silent :: "error + 'a \<Rightarrow> bool" where
  "silent r = (\<forall>err. r = Inl err \<longrightarrow> \<not> parameter_error err)"

text \<open>The checks of \<^verbatim>\<open>check_parameters\<close> that come after the lookup of the resource
  group and do not depend on the storage account, with the requested VHD URI as a
  parameter.\<close>

definition checked ::
  "vm_env \<Rightarrow> vm_params \<Rightarrow> vm_call list \<Rightarrow> string \<Rightarrow> string option \<Rightarrow> error + normalized" where
  "checked e p h location requested_vhd_uri =
     and_then (if truthy (vp_vm_size p)
               then and_then (vm_size_is_valid e location (the (vp_vm_size p)))
                      (\<lambda>valid. if \<not> valid then Inl (AttributeError ''foramt'') else Inr ())
               else Inr ()) (\<lambda>_.
     and_then (if truthy (vp_network_interface_names p)
               then map_err (\<lambda>name. and_then (get_network_interface e h name)
                                        (\<lambda>nic. Inr (n_id nic)))
                      (the (vp_network_interface_names p))
               else Inr []) (\<lambda>network_interfaces.
     and_then (if truthy (vp_ssh_public_keys p)
               then map_err check_ssh_entry (the (vp_ssh_public_keys p))
               else Inr []) (\<lambda>_.
     and_then (resolve_image e location (vp_image p)) (\<lambda>img.
       Inr \<lparr> nz_location = location, nz_network_interfaces = network_interfaces,
             nz_image = img,
             nz_storage_blob_name = Some (if truthy (vp_storage_blob_name p)
                                          then the (vp_storage_blob_name p)
                                          else vp_name p @ ''.vhd''),
             nz_requested_vhd_uri = requested_vhd_uri,
             nz_disable_ssh_password = Some (\<not> vp_ssh_password p) \<rparr>))))"

text \<open>The three messages of the checks made when a machine is about to be created.\<close>

definition create_messages :: "string list" where
  "create_messages =
     [''Parameter error: admin_username required when creating a virtual machine.'',
      ''Parameter error: ssh_public_keys required when disabling SSH password.'',
      ''Parameter error: an image is required when creating a virtual machine.'']"


section \<open>Name validation\<close>

lemma name_body_no_hyphen: "name_body s \<Longrightarrow> CHR ''-'' \<notin> set s"
proof
  assume b: "name_body s" and h: "CHR ''-'' \<in> set s"
  from b have "s \<noteq> []" by (auto simp: name_body_def)
  then obtain ys y where s: "s = ys @ [y]" by (cases s rule: rev_cases) auto
  from b s have ys: "list_all head_class ys" and y: "last_class y"
    by (simp_all add: name_body_def)
  from h s have "CHR ''-'' \<in> set ys \<or> y = CHR ''-''" by auto
  then show False
  proof
    assume "CHR ''-'' \<in> set ys"
    with ys have "head_class CHR ''-''" by (simp add: list_all_iff)
    then show False by (simp add: head_class_def in_range_def)
  next
    assume "y = CHR ''-''"
    with y show False by (simp add: last_class_def in_range_def)
  qed
qed

lemma NAME_PATTERN_no_hyphen: "NAME_PATTERN_match s \<Longrightarrow> CHR ''-'' \<notin> set s"
proof -
  assume m: "NAME_PATTERN_match s"
  then consider "name_body s" | "s \<noteq> []" "last s = CHR 0x0A" "name_body (butlast s)"
    by (auto simp: NAME_PATTERN_match_def)
  then show ?thesis
  proof cases
    case 1 then show ?thesis by (rule name_body_no_hyphen)
  next
    case 2
    from 2(1) obtain ys y where s: "s = ys @ [y]" by (cases s rule: rev_cases) auto
    with 2 have "y = CHR 0x0A" and "CHR ''-'' \<notin> set ys"
      using name_body_no_hyphen [of ys] by simp_all
    with s show ?thesis by simp
  qed
qed

text \<open>
  C8.  The specification's rule accepts the hyphenated name \<open>my-network\<close>, as the module's
  own failure message ("may contain only letters, numbers, periods, underscores or
  hyphens") and its own example name \<open>test-vnet\<close> do; the compiled pattern rejects both.
  The two names the specification lists are classified as it says: \<open>My_Network1\<close> is
  accepted, \<open>my-network-\<close> is rejected.
\<close>

theorem name_pattern_rejects_hyphenated:
  "spec_name_ok ''my-network'' \<and> \<not> NAME_PATTERN_match ''my-network''
   \<and> spec_name_ok ''test-vnet'' \<and> \<not> NAME_PATTERN_match ''test-vnet''
   \<and> NAME_PATTERN_match ''My_Network1'' \<and> \<not> NAME_PATTERN_match ''my-network-''"
  by (simp add: spec_name_ok_def spec_letter_digit_us_def NAME_PATTERN_match_def name_body_def
      head_class_def last_class_def in_range_def)

section \<open>Virtual network: address prefixes, validation and update\<close>

lemmas vnet_run_defs = exec_module_impl_def validate_params_def diff_phase_def apply_phase_def
  diff_address_prefixes_def diff_tags_def diff_dns_servers_def update_payload_def
  create_or_update_vnet_def delete_virtual_network_def virtual_network_to_dict_def
  stop_def return_def and_then_def getitem_def truthy_def set_minus_def empty_dict_def Let_def

lemmas name_defs = NAME_PATTERN_match_def name_body_def head_class_def last_class_def in_range_def

lemmas plane_defs = control_plane_def stored_def new_vnet_def update_tags_def
  one_prefix_vnet_def two_prefix_vnet_def no_dns_vnet_def want_def

lemma cidr_examples:
  "cidr_syntax ''10.0.0.0/16''" "cidr_syntax ''10.1.0.0/16''" "\<not> cidr_syntax ''not-a-cidr''"
  by (simp_all add: cidr_syntax_def decimal_upto_def digit_value_def in_range_def)

lemma name_vnet: "NAME_PATTERN_match ''vnet''"
  by (simp add: name_defs)

text \<open>Without the purge flag the target holds the union of the existing and the
  requested prefixes.\<close>

lemma diff_address_prefixes_merge:
  assumes "\<not> p_purge_address_prefixes p" and "p_address_prefixes_cidr p = Some requested"
    and "v_address_space vnet = Some existing" and "existing \<noteq> []"
  shows "\<exists>c r. diff_address_prefixes p vnet (changed, virtual_network_to_dict vnet) = Inr (c, r)
           \<and> (\<exists>target. d_address_prefixes r = Some target \<and> set target = set existing \<union> set requested)"
  using assms
  by (auto simp: diff_address_prefixes_def virtual_network_to_dict_def and_then_def getitem_def
      truthy_def set_minus_def Let_def filter_empty_conv)

text \<open>With the purge flag and an existing prefix that was not requested, the target is
  the requested list.\<close>

lemma diff_address_prefixes_replace:
  assumes "p_purge_address_prefixes p" and "p_address_prefixes_cidr p = Some requested"
    and "requested \<noteq> []" and "v_address_space vnet = Some existing"
    and "\<not> set existing \<subseteq> set requested"
  shows "\<exists>r. diff_address_prefixes p vnet (changed, virtual_network_to_dict vnet) = Inr (True, r)
           \<and> d_address_prefixes r = Some requested"
  using assms
  by (auto simp: diff_address_prefixes_def virtual_network_to_dict_def and_then_def getitem_def
      truthy_def set_minus_def Let_def filter_empty_conv)

text \<open>With the purge flag and nothing to remove, a missing prefix is reported as a change
  and the target is left as it was.\<close>

lemma diff_address_prefixes_purge_subset:
  assumes "p_purge_address_prefixes p" and "p_address_prefixes_cidr p = Some requested"
    and "v_address_space vnet = Some existing"
    and "set existing \<subseteq> set requested" and "\<not> set requested \<subseteq> set existing"
  shows "diff_address_prefixes p vnet (changed, results) = Inr (True, results)"
  using assms
  by (auto simp: diff_address_prefixes_def and_then_def getitem_def
      truthy_def set_minus_def Let_def filter_empty_conv)

text \<open>
  C2.  Existing \<open>10.0.0.0/16\<close>, requested \<open>10.0.0.0/16\<close> and \<open>10.1.0.0/16\<close>, purge flag set:
  the comparison reports a change and leaves \<open>10.1.0.0/16\<close> out of the target, although a
  requested prefix that is missing is to be added always.  The two examples of the
  specification come out as it says: the union without the flag, exactly the requested
  list with the flag when there is a prefix to remove.
\<close>

theorem purge_leaves_missing_prefix_out:
  "diff_address_prefixes
     (want\<lparr> p_address_prefixes_cidr := Some [''10.0.0.0/16'', ''10.1.0.0/16''],
            p_purge_address_prefixes := True \<rparr>)
     one_prefix_vnet (False, virtual_network_to_dict one_prefix_vnet)
   = Inr (True, virtual_network_to_dict one_prefix_vnet)
   \<and> d_address_prefixes (virtual_network_to_dict one_prefix_vnet) = Some [''10.0.0.0/16'']
   \<and> diff_address_prefixes
        (want\<lparr> p_address_prefixes_cidr := Some [''10.0.0.0/16'', ''10.1.0.0/16''] \<rparr>)
        one_prefix_vnet (False, virtual_network_to_dict one_prefix_vnet)
      = Inr (True, (virtual_network_to_dict one_prefix_vnet)
                     \<lparr> d_address_prefixes := Some [''10.0.0.0/16'', ''10.1.0.0/16''] \<rparr>)
   \<and> diff_address_prefixes
        (want\<lparr> p_address_prefixes_cidr := Some [''10.1.0.0/16''],
               p_purge_address_prefixes := True \<rparr>)
        two_prefix_vnet (False, virtual_network_to_dict two_prefix_vnet)
      = Inr (True, (virtual_network_to_dict two_prefix_vnet)
                     \<lparr> d_address_prefixes := Some [''10.1.0.0/16''] \<rparr>)"
  by (simp add: vnet_run_defs plane_defs)

text \<open>
  C1.  The same input as a whole invocation, against the reference control plane: the
  first run completes and sends an update that holds the existing prefix only; the
  second run, started after that update, reports a change again.
\<close>

theorem second_run_still_changed:
  "o_failed (exec_module_impl (control_plane (Some one_prefix_vnet))
      (want\<lparr> p_address_prefixes_cidr := Some [''10.0.0.0/16'', ''10.1.0.0/16''],
             p_purge_address_prefixes := True \<rparr>) []) = None
   \<and> o_calls (exec_module_impl (control_plane (Some one_prefix_vnet))
      (want\<lparr> p_address_prefixes_cidr := Some [''10.0.0.0/16'', ''10.1.0.0/16''],
             p_purge_address_prefixes := True \<rparr>) []) =
       [CreateOrUpdate \<lparr> pl_location = ''eastus'', pl_address_prefixes = [''10.0.0.0/16''],
                         pl_tags = None, pl_dhcp_options = Some [''10.0.0.4''] \<rparr>]
   \<and> r_changed (o_results (exec_module_impl (control_plane (Some one_prefix_vnet))
      (want\<lparr> p_address_prefixes_cidr := Some [''10.0.0.0/16'', ''10.1.0.0/16''],
             p_purge_address_prefixes := True \<rparr>)
       [CreateOrUpdate \<lparr> pl_location = ''eastus'', pl_address_prefixes = [''10.0.0.0/16''],
                         pl_tags = None, pl_dhcp_options = Some [''10.0.0.4''] \<rparr>]))"
  by (simp add: vnet_run_defs plane_defs name_vnet cidr_examples)

text \<open>The update payload reads the key \<^verbatim>\<open>dns_servers\<close>, which
  \<^verbatim>\<open>virtual_network_to_dict\<close> sets only for a network that has DNS servers.\<close>

lemma update_payload_without_dns_servers:
  assumes "d_location results = Some location" and "d_address_prefixes results = Some prefixes"
    and "d_tags results = Some t" and "d_dns_servers results = None"
  shows "update_payload results = Inl (KeyError ''dns_servers'')"
  using assms by (simp add: update_payload_def and_then_def getitem_def)

text \<open>
  C10.  A network with one address prefix and no DNS servers, changed in its tags only:
  building the update payload raises \<^verbatim>\<open>KeyError\<close> for \<^verbatim>\<open>dns_servers\<close> and no update is
  sent.
\<close>

theorem update_payload_missing_key:
  "o_failed (exec_module_impl (control_plane (Some no_dns_vnet))
               (want\<lparr> p_tags := Some [(''env'', ''prod'')] \<rparr>) []) = Some (KeyError ''dns_servers'')
   \<and> o_calls (exec_module_impl (control_plane (Some no_dns_vnet))
               (want\<lparr> p_tags := Some [(''env'', ''prod'')] \<rparr>) []) = []
   \<and> r_changed (o_results (exec_module_impl (control_plane (Some no_dns_vnet))
               (want\<lparr> p_tags := Some [(''env'', ''prod'')] \<rparr>) []))"
  by (simp add: vnet_run_defs plane_defs name_vnet)

lemma validate_params_invalid_prefix:
  assumes "p_state p = Present" and "p_purge_address_prefixes p"
    and "p_address_prefixes_cidr p = Some prefixes"
    and "\<exists>x \<in> set prefixes. \<not> e_CIDR_PATTERN e x"
  shows "\<exists>err. validate_params e p = Some err"
  using assms by (auto simp: validate_params_def find_None_iff split: option.splits)

lemma validate_params_no_purge:
  "\<not> p_purge_address_prefixes p \<Longrightarrow>
   validate_params (e\<lparr> e_CIDR_PATTERN := c \<rparr>) p = validate_params e p"
  by (simp add: validate_params_def)

text \<open>
  C9, as the code has it.  With state present and the purge flag set, an invalid prefix
  stops the invocation before anything is fetched or sent: a failure is reported, no call
  is issued and \<^verbatim>\<open>changed\<close> is false.  Without the purge flag the prefixes are not
  checked at all: the run is the same whatever \<^verbatim>\<open>CIDR_PATTERN\<close> accepts.
\<close>

theorem invalid_prefix_checked_when_purging:
  "(p_state p = Present \<and> p_purge_address_prefixes p \<and> p_address_prefixes_cidr p = Some prefixes
      \<and> (\<exists>x \<in> set prefixes. \<not> e_CIDR_PATTERN e x)
    \<longrightarrow> o_failed (exec_module_impl e p h) \<noteq> None \<and> o_calls (exec_module_impl e p h) = h
        \<and> \<not> r_changed (o_results (exec_module_impl e p h)))
   \<and> (\<not> p_purge_address_prefixes p
    \<longrightarrow> exec_module_impl (e\<lparr> e_CIDR_PATTERN := c \<rparr>) p h = exec_module_impl e p h)"
proof (intro conjI impI)
  assume a: "p_state p = Present \<and> p_purge_address_prefixes p
     \<and> p_address_prefixes_cidr p = Some prefixes \<and> (\<exists>x \<in> set prefixes. \<not> e_CIDR_PATTERN e x)"
  then obtain err where v: "validate_params e p = Some err"
    using validate_params_invalid_prefix [of p prefixes e] by blast
  show "o_failed (exec_module_impl e p h) \<noteq> None"
    using v by (simp add: exec_module_impl_def stop_def Let_def split: option.splits)
  show "o_calls (exec_module_impl e p h) = h"
    using v by (simp add: exec_module_impl_def stop_def Let_def split: option.splits)
  show "\<not> r_changed (o_results (exec_module_impl e p h))"
    using v by (simp add: exec_module_impl_def stop_def Let_def split: option.splits)
next
  assume "\<not> p_purge_address_prefixes p"
  then have v: "validate_params (e\<lparr> e_CIDR_PATTERN := c \<rparr>) p = validate_params e p"
    by (rule validate_params_no_purge)
  have g: "e_resource_group (e\<lparr> e_CIDR_PATTERN := c \<rparr>) = e_resource_group e"
    by simp
  have t: "diff_tags (e\<lparr> e_CIDR_PATTERN := c \<rparr>) p = diff_tags e p"
    by (intro ext) (simp add: diff_tags_def)
  have g1: "e_get (e\<lparr> e_CIDR_PATTERN := c \<rparr>) = e_get e"
    and g2: "e_check_provisioning_state (e\<lparr> e_CIDR_PATTERN := c \<rparr>) = e_check_provisioning_state e"
    by simp_all
  have d: "diff_phase (e\<lparr> e_CIDR_PATTERN := c \<rparr>) p h = diff_phase e p h"
    unfolding diff_phase_def t g1 g2 ..
  have u: "create_or_update_vnet (e\<lparr> e_CIDR_PATTERN := c \<rparr>) = create_or_update_vnet e"
    by (intro ext) (simp add: create_or_update_vnet_def)
  have r: "delete_virtual_network (e\<lparr> e_CIDR_PATTERN := c \<rparr>) = delete_virtual_network e"
    by (intro ext) (simp add: delete_virtual_network_def)
  have a: "apply_phase (e\<lparr> e_CIDR_PATTERN := c \<rparr>) p = apply_phase e p"
    unfolding apply_phase_def u r ..
  show "exec_module_impl (e\<lparr> e_CIDR_PATTERN := c \<rparr>) p h = exec_module_impl e p h"
    unfolding exec_module_impl_def v g d a ..
qed

theorem invalid_prefix_checked_when_purging_witness:
  "o_failed (exec_module_impl (control_plane None)
       (want\<lparr> p_address_prefixes_cidr := Some [''10.0.0.0/16'', ''not-a-cidr''],
              p_purge_address_prefixes := True \<rparr>) []) \<noteq> None
   \<and> o_calls (exec_module_impl (control_plane None)
       (want\<lparr> p_address_prefixes_cidr := Some [''10.0.0.0/16'', ''not-a-cidr''],
              p_purge_address_prefixes := True \<rparr>) []) = []
   \<and> exec_module_impl ((control_plane None)\<lparr> e_CIDR_PATTERN := (\<lambda>prefix. False) \<rparr>)
       (want\<lparr> p_address_prefixes_cidr := Some [''10.0.0.0/16''] \<rparr>) []
     = exec_module_impl (control_plane None)
       (want\<lparr> p_address_prefixes_cidr := Some [''10.0.0.0/16''] \<rparr>) []"
proof -
  have bad: "\<exists>x \<in> set [''10.0.0.0/16'', ''not-a-cidr'']. \<not> e_CIDR_PATTERN (control_plane None) x"
    by (simp add: control_plane_def cidr_examples)
  have 1: "o_failed (exec_module_impl (control_plane None)
       (want\<lparr> p_address_prefixes_cidr := Some [''10.0.0.0/16'', ''not-a-cidr''],
              p_purge_address_prefixes := True \<rparr>) []) \<noteq> None
   \<and> o_calls (exec_module_impl (control_plane None)
       (want\<lparr> p_address_prefixes_cidr := Some [''10.0.0.0/16'', ''not-a-cidr''],
              p_purge_address_prefixes := True \<rparr>) []) = []"
    using bad invalid_prefix_checked_when_purging
      [of "want\<lparr> p_address_prefixes_cidr := Some [''10.0.0.0/16'', ''not-a-cidr''],
                 p_purge_address_prefixes := True \<rparr>"
          "[''10.0.0.0/16'', ''not-a-cidr'']" "control_plane None" "[]"]
    by (simp add: want_def)
  have 2: "exec_module_impl ((control_plane None)\<lparr> e_CIDR_PATTERN := (\<lambda>prefix. False) \<rparr>)
       (want\<lparr> p_address_prefixes_cidr := Some [''10.0.0.0/16''] \<rparr>) []
     = exec_module_impl (control_plane None)
       (want\<lparr> p_address_prefixes_cidr := Some [''10.0.0.0/16''] \<rparr>) []"
    using invalid_prefix_checked_when_purging
      [of "want\<lparr> p_address_prefixes_cidr := Some [''10.0.0.0/16''] \<rparr>" "[]" "control_plane None"
          "[]" "\<lambda>prefix. False"]
    by (simp add: want_def)
  from 1 2 show ?thesis by simp
qed

text \<open>C9, as the specification has it, fails: state present, no purge flag, the prefix
  \<open>not-a-cidr\<close>, no network yet.  The run does not fail and the prefix is sent.\<close>

theorem invalid_prefix_sent_without_purge:
  "\<not> cidr_syntax ''not-a-cidr''
   \<and> o_failed (exec_module_impl (control_plane None)
               (want\<lparr> p_address_prefixes_cidr := Some [''not-a-cidr''] \<rparr>) []) = None
   \<and> o_calls (exec_module_impl (control_plane None)
               (want\<lparr> p_address_prefixes_cidr := Some [''not-a-cidr''] \<rparr>) []) =
      [CreateOrUpdate \<lparr> pl_location = ''eastus'', pl_address_prefixes = [''not-a-cidr''],
                        pl_tags = None, pl_dhcp_options = None \<rparr>]"
  by (simp add: vnet_run_defs plane_defs name_vnet cidr_examples)

section \<open>Evaluating concrete runs of the virtual machine module\<close>

lemmas vm_defs = exec_vm_def check_parameters_def fetch_and_compare_def serialize_vm_def
  serialize_obj_def expand_public_ips_def expand_config_def
  nic_properties_def id_part_def get_network_interface_def get_vm_def get_storage_account_def
  power_state_def startswith_def replace_def vm_size_is_valid_def resolve_image_def image_given_def
  get_image_version_def check_ssh_entry_def vhd_uri_def
  diff_vm_def diff_network_interfaces_def diff_vm_size_def diff_image_def
  diff_os_disk_caching_def diff_vm_tags_def diff_short_hostname_def diff_power_state_def
  apply_changes_def create_vm_def update_vm_def update_resource_def linux_configuration_given_def
  create_or_update_vm_def apply_power_state_def reported_power_state_def power_on_vm_def
  power_off_vm_def refresh_results_def create_default_nic_def create_default_storage_account_def
  find_virtual_network_def find_subnet_def entry_key_def
  delete_vm_def collect_names_def public_ip_names_def delete_vm_storage_def delete_blob_def
  delete_nic_def delete_pip_def extract_names_from_blob_uri_def
  finish_def initial_results_def next_step_def pure_def failing_def lift_def action_def issue_def
  set_results_def calls_so_far_def and_then_def getitem_def truthy_def Let_def

lemmas machine_defs = machine_plane_def want_vm_def stopped_vm_def running_vm_def machine_of_def
  interface_id_def public_ip_id_def azure_id_to_dict_def update_tags_def delete_all_def
  refusing_plane_def fresh_world_def

section \<open>Steps of the apply phase\<close>

lemma next_step_Inr: "fst (m w) = Inr v \<Longrightarrow> next_step m f w = f v (snd (m w))"
  by (cases "m w") (simp add: next_step_def)

lemma next_step_Inl: "fst (m w) = Inl err \<Longrightarrow> next_step m f w = (Inl err, snd (m w))"
  by (cases "m w") (simp add: next_step_def)

lemma not_Inr_unit: "(r \<noteq> Inr ()) = (\<exists>err. r = Inl err)" for r :: "error + unit"
  by (cases r) simp_all

lemma seq_unit:
  fixes m :: "unit step"
  shows "w_calls (snd (next_step m (\<lambda>_. k) w)) =
           (if fst (m w) = Inr () then w_calls (snd (k (snd (m w)))) else w_calls (snd (m w)))"
    and "(fst (next_step m (\<lambda>_. k) w) = Inr ()) =
           (fst (m w) = Inr () \<and> fst (k (snd (m w))) = Inr ())"
  by (cases "m w"; cases "fst (m w)"; simp add: next_step_def)+

lemma next_step_pure: "next_step m pure = m"
  by (rule ext) (simp add: next_step_def pure_def split: prod.splits sum.splits)

lemma action_run: "fst (action msg w) = Inr ()" "w_calls (snd (action msg w)) = w_calls w"
  by (simp_all add: action_def)

lemma issue_run:
  "(fst (issue e call msg w) = Inr ()) = ve_call_ok e (w_calls w) call"
  "w_calls (snd (issue e call msg w)) = w_calls w @ [call]"
  by (simp_all add: issue_def)

section \<open>Check mode\<close>

lemma exec_vm_check_mode:
  assumes "vp_check_mode p"
  shows "x_calls (exec_vm e p h) = h"
    and "check_parameters e p h = Inr n \<Longrightarrow> fetch_and_compare e p n h = Inr f \<Longrightarrow>
         x_failed (exec_vm e p h) = None
         \<and> s_changed (x_results (exec_vm e p h)) = f_changed f
         \<and> s_differences (x_results (exec_vm e p h)) = f_differences f
         \<and> s_results (x_results (exec_vm e p h)) = f_results f
         \<and> s_powerstate_change (x_results (exec_vm e p h)) = f_powerstate_change f
         \<and> s_actions (x_results (exec_vm e p h)) = []"
  using assms
  by (simp_all add: exec_vm_def finish_def initial_results_def Let_def split: sum.splits)

lemma exec_module_impl_check_mode:
  assumes "p_check_mode q"
  shows "o_calls (exec_module_impl e q h) = h"
    and "e_resource_group e = Some location \<Longrightarrow> validate_params e q = None \<Longrightarrow>
         diff_phase e q h = Inr (changed, results) \<Longrightarrow>
         o_failed (exec_module_impl e q h) = None
         \<and> r_changed (o_results (exec_module_impl e q h)) = changed
         \<and> r_results (o_results (exec_module_impl e q h)) = results"
  using assms
  by (simp_all add: exec_module_impl_def stop_def return_def Let_def
      split: sum.splits option.splits prod.splits)

text \<open>
  C5.  With check mode on, neither module issues a changing call: the calls after the
  invocation are the calls before it.  When the parameters pass and the fetch and the
  comparison succeed, the invocation returns what the comparison computed (the changed
  flag, the differences, the results, the power state change) and the action log is
  empty.
\<close>

theorem check_mode_issues_no_call:
  "(vp_check_mode p \<longrightarrow>
      x_calls (exec_vm e p h) = h
      \<and> (\<forall>n f. check_parameters e p h = Inr n \<and> fetch_and_compare e p n h = Inr f \<longrightarrow>
            x_failed (exec_vm e p h) = None
            \<and> s_changed (x_results (exec_vm e p h)) = f_changed f
            \<and> s_differences (x_results (exec_vm e p h)) = f_differences f
            \<and> s_results (x_results (exec_vm e p h)) = f_results f
            \<and> s_powerstate_change (x_results (exec_vm e p h)) = f_powerstate_change f
            \<and> s_actions (x_results (exec_vm e p h)) = []))
   \<and> (p_check_mode q \<longrightarrow>
      o_calls (exec_module_impl e' q h') = h'
      \<and> (\<forall>location changed results.
            e_resource_group e' = Some location \<and> validate_params e' q = None
            \<and> diff_phase e' q h' = Inr (changed, results) \<longrightarrow>
            o_failed (exec_module_impl e' q h') = None
            \<and> r_changed (o_results (exec_module_impl e' q h')) = changed
            \<and> r_results (o_results (exec_module_impl e' q h')) = results))"
  using exec_vm_check_mode [where p=p and e=e and h=h]
    exec_module_impl_check_mode [where q=q and e=e' and h=h']
  by blast

theorem check_mode_issues_no_call_witness:
  "x_calls (exec_vm (machine_plane (Some stopped_vm)) (want_vm\<lparr> vp_check_mode := True \<rparr>) []) = []
   \<and> o_calls (exec_module_impl (control_plane (Some one_prefix_vnet))
        (want\<lparr> p_check_mode := True,
               p_address_prefixes_cidr := Some [''10.0.0.0/16'', ''10.1.0.0/16''] \<rparr>) []) = []"
  using check_mode_issues_no_call
    [where p = "want_vm\<lparr> vp_check_mode := True \<rparr>" and e = "machine_plane (Some stopped_vm)"
       and h = "[]"
       and q = "want\<lparr> p_check_mode := True,
                      p_address_prefixes_cidr := Some [''10.0.0.0/16'', ''10.1.0.0/16''] \<rparr>"
       and e' = "control_plane (Some one_prefix_vnet)" and h' = "[]"]
  by (simp add: want_vm_def want_def)

section \<open>Fields that an update never changes\<close>

lemma diff_steps_keep:
  "op_admin_username (vd_os_profile (c_vm_dict (diff_network_interfaces p n c))) = op_admin_username (vd_os_profile (c_vm_dict c))"
  "op_admin_password (vd_os_profile (c_vm_dict (diff_network_interfaces p n c))) = op_admin_password (vd_os_profile (c_vm_dict c))"
  "od_vhd_uri (vd_os_disk (c_vm_dict (diff_network_interfaces p n c))) = od_vhd_uri (vd_os_disk (c_vm_dict c))"
  "op_admin_username (vd_os_profile (c_vm_dict (diff_vm_size p c))) = op_admin_username (vd_os_profile (c_vm_dict c))"
  "op_admin_password (vd_os_profile (c_vm_dict (diff_vm_size p c))) = op_admin_password (vd_os_profile (c_vm_dict c))"
  "od_vhd_uri (vd_os_disk (c_vm_dict (diff_vm_size p c))) = od_vhd_uri (vd_os_disk (c_vm_dict c))"
  "op_admin_username (vd_os_profile (c_vm_dict (diff_image n c))) = op_admin_username (vd_os_profile (c_vm_dict c))"
  "op_admin_password (vd_os_profile (c_vm_dict (diff_image n c))) = op_admin_password (vd_os_profile (c_vm_dict c))"
  "od_vhd_uri (vd_os_disk (c_vm_dict (diff_image n c))) = od_vhd_uri (vd_os_disk (c_vm_dict c))"
  "op_admin_username (vd_os_profile (c_vm_dict (diff_os_disk_caching p c))) = op_admin_username (vd_os_profile (c_vm_dict c))"
  "op_admin_password (vd_os_profile (c_vm_dict (diff_os_disk_caching p c))) = op_admin_password (vd_os_profile (c_vm_dict c))"
  "od_vhd_uri (vd_os_disk (c_vm_dict (diff_os_disk_caching p c))) = od_vhd_uri (vd_os_disk (c_vm_dict c))"
  "op_admin_username (vd_os_profile (c_vm_dict (diff_vm_tags e p c))) = op_admin_username (vd_os_profile (c_vm_dict c))"
  "op_admin_password (vd_os_profile (c_vm_dict (diff_vm_tags e p c))) = op_admin_password (vd_os_profile (c_vm_dict c))"
  "od_vhd_uri (vd_os_disk (c_vm_dict (diff_vm_tags e p c))) = od_vhd_uri (vd_os_disk (c_vm_dict c))"
  "op_admin_username (vd_os_profile (c_vm_dict (diff_short_hostname p c))) = op_admin_username (vd_os_profile (c_vm_dict c))"
  "op_admin_password (vd_os_profile (c_vm_dict (diff_short_hostname p c))) = op_admin_password (vd_os_profile (c_vm_dict c))"
  "od_vhd_uri (vd_os_disk (c_vm_dict (diff_short_hostname p c))) = od_vhd_uri (vd_os_disk (c_vm_dict c))"
  "op_admin_username (vd_os_profile (c_vm_dict (diff_power_state p c))) = op_admin_username (vd_os_profile (c_vm_dict c))"
  "op_admin_password (vd_os_profile (c_vm_dict (diff_power_state p c))) = op_admin_password (vd_os_profile (c_vm_dict c))"
  "od_vhd_uri (vd_os_disk (c_vm_dict (diff_power_state p c))) = od_vhd_uri (vd_os_disk (c_vm_dict c))"
  by (simp_all add: diff_network_interfaces_def diff_vm_size_def diff_image_def
      diff_os_disk_caching_def diff_vm_tags_def diff_short_hostname_def diff_power_state_def
      Let_def split: option.splits prod.splits)

lemma diff_vm_keeps:
  "op_admin_username (vd_os_profile (c_vm_dict (diff_vm e p n d))) = op_admin_username (vd_os_profile d)"
  "op_admin_password (vd_os_profile (c_vm_dict (diff_vm e p n d))) = op_admin_password (vd_os_profile d)"
  "od_vhd_uri (vd_os_disk (c_vm_dict (diff_vm e p n d))) = od_vhd_uri (vd_os_disk d)"
  by (simp_all add: diff_vm_def diff_steps_keep)

lemma diff_steps_labels:
  "set (c_differences (diff_network_interfaces p n c)) \<subseteq> insert ''Network Interfaces'' (set (c_differences c))"
  "set (c_differences (diff_vm_size p c)) \<subseteq> insert ''VM Size'' (set (c_differences c))"
  "set (c_differences (diff_image n c)) \<subseteq> insert ''Image'' (insert ''Image versions'' (set (c_differences c)))"
  "set (c_differences (diff_os_disk_caching p c)) \<subseteq> insert ''OS Disk caching'' (set (c_differences c))"
  "set (c_differences (diff_vm_tags e p c)) \<subseteq> insert ''Tags'' (set (c_differences c))"
  "set (c_differences (diff_short_hostname p c)) \<subseteq> insert ''Short Hostname'' (set (c_differences c))"
  "set (c_differences (diff_power_state p c)) = set (c_differences c)"
  by (auto simp: diff_network_interfaces_def diff_vm_size_def diff_image_def
      diff_os_disk_caching_def diff_vm_tags_def diff_short_hostname_def diff_power_state_def
      Let_def split: option.splits prod.splits if_splits)

lemma diff_vm_labels:
  "set (c_differences (diff_vm e p n d)) \<subseteq>
     {''Short Hostname'', ''Tags'', ''OS Disk caching'', ''Image'', ''Image versions'', ''VM Size'',
      ''Network Interfaces''}"
proof -
  let ?c0 = "\<lparr> c_vm_dict = d, c_differences = [], c_changed = False, c_powerstate_change = None \<rparr>"
  let ?c1 = "diff_network_interfaces p n ?c0"
  let ?c2 = "diff_vm_size p ?c1"
  let ?c3 = "diff_image n ?c2"
  let ?c4 = "diff_os_disk_caching p ?c3"
  let ?c5 = "diff_vm_tags e p ?c4"
  let ?c6 = "diff_short_hostname p ?c5"
  have 0: "set (c_differences ?c0) \<subseteq> {}" by simp
  note 1 = subset_trans [OF diff_steps_labels(1) [of p n ?c0] insert_mono [OF 0]]
  note 2 = subset_trans [OF diff_steps_labels(2) [of p ?c1] insert_mono [OF 1]]
  note 3 = subset_trans [OF diff_steps_labels(3) [of n ?c2] insert_mono [OF insert_mono [OF 2]]]
  note 4 = subset_trans [OF diff_steps_labels(4) [of p ?c3] insert_mono [OF 3]]
  note 5 = subset_trans [OF diff_steps_labels(5) [of e p ?c4] insert_mono [OF 4]]
  note 6 = subset_trans [OF diff_steps_labels(6) [of p ?c5] insert_mono [OF 5]]
  show ?thesis
    unfolding diff_vm_def diff_steps_labels(7) by (rule 6)
qed

lemma diff_vm_no_immutable_label:
  "''Admin Username'' \<notin> set (c_differences (diff_vm e p n d))"
  "''OS Disk VHD uri'' \<notin> set (c_differences (diff_vm e p n d))"
  by (rule contra_subsetD [OF diff_vm_labels], simp)+

lemma diff_steps_ignore:
  "diff_network_interfaces (p\<lparr> vp_admin_username := u, vp_admin_password := pw, vp_storage_account_name := sa \<rparr>)
     (n\<lparr> nz_requested_vhd_uri := uri \<rparr>) = diff_network_interfaces p n"
  "diff_vm_size (p\<lparr> vp_admin_username := u, vp_admin_password := pw, vp_storage_account_name := sa \<rparr>) = diff_vm_size p"
  "diff_image (n\<lparr> nz_requested_vhd_uri := uri \<rparr>) = diff_image n"
  "diff_os_disk_caching (p\<lparr> vp_admin_username := u, vp_admin_password := pw, vp_storage_account_name := sa \<rparr>) = diff_os_disk_caching p"
  "diff_vm_tags e (p\<lparr> vp_admin_username := u, vp_admin_password := pw, vp_storage_account_name := sa \<rparr>) = diff_vm_tags e p"
  "diff_short_hostname (p\<lparr> vp_admin_username := u, vp_admin_password := pw, vp_storage_account_name := sa \<rparr>) = diff_short_hostname p"
  "diff_power_state (p\<lparr> vp_admin_username := u, vp_admin_password := pw, vp_storage_account_name := sa \<rparr>) = diff_power_state p"
  by (simp_all add: fun_eq_iff diff_network_interfaces_def diff_vm_size_def diff_image_def
      diff_os_disk_caching_def diff_vm_tags_def diff_short_hostname_def diff_power_state_def)

lemma diff_vm_ignores:
  "diff_vm e (p\<lparr> vp_admin_username := u, vp_admin_password := pw, vp_storage_account_name := sa \<rparr>)
     (n\<lparr> nz_requested_vhd_uri := uri \<rparr>) d = diff_vm e p n d"
  unfolding diff_vm_def diff_steps_ignore ..

lemma fetch_found_vm:
  "fetch_and_compare e p n h = Inr f \<Longrightarrow> ve_vm_get e h = Found vm \<Longrightarrow> f_vm f = Some vm"
  by (auto simp: fetch_and_compare_def and_then_def Let_def split: if_splits sum.splits)

lemma steps_ignore:
  "serialize_vm e (p\<lparr> vp_admin_username := u, vp_admin_password := pw, vp_storage_account_name := sa \<rparr>)
     = serialize_vm e p"
  "create_or_update_vm e (p\<lparr> vp_admin_username := u, vp_admin_password := pw, vp_storage_account_name := sa \<rparr>)
     = create_or_update_vm e p"
  "power_on_vm e (p\<lparr> vp_admin_username := u, vp_admin_password := pw, vp_storage_account_name := sa \<rparr>)
     = power_on_vm e p"
  "power_off_vm e (p\<lparr> vp_admin_username := u, vp_admin_password := pw, vp_storage_account_name := sa \<rparr>)
     = power_off_vm e p"
  "collect_names e (p\<lparr> vp_admin_username := u, vp_admin_password := pw, vp_storage_account_name := sa \<rparr>)
     = collect_names e p"
  by (simp_all add: fun_eq_iff serialize_vm_def create_or_update_vm_def power_on_vm_def
      power_off_vm_def collect_names_def Let_def cong: if_cong)

lemma steps_ignore2:
  "refresh_results e (p\<lparr> vp_admin_username := u, vp_admin_password := pw, vp_storage_account_name := sa \<rparr>)
     = refresh_results e p"
  "update_vm e (p\<lparr> vp_admin_username := u, vp_admin_password := pw, vp_storage_account_name := sa \<rparr>)
     = update_vm e p"
  "delete_vm e (p\<lparr> vp_admin_username := u, vp_admin_password := pw, vp_storage_account_name := sa \<rparr>)
     = delete_vm e p"
  by (simp_all add: fun_eq_iff refresh_results_def update_vm_def delete_vm_def steps_ignore cong: if_cong)

lemma apply_power_state_ignore:
  "apply_power_state e (p\<lparr> vp_admin_username := u, vp_admin_password := pw, vp_storage_account_name := sa \<rparr>)
     = apply_power_state e p"
  by (simp add: fun_eq_iff apply_power_state_def steps_ignore steps_ignore2 cong: if_cong)


lemma storage_lookup:
  assumes "truthy name \<longrightarrow> (\<exists>a. ve_storage_get e h (the name) = Found a)"
  shows "(if truthy name
          then and_then (get_storage_account e h (the name)) (\<lambda>_. Inr (Some (vhd_uri (the name) c b)))
          else Inr None)
         = Inr (if truthy name then Some (vhd_uri (the name) c b) else None)"
  using assms by (auto simp: get_storage_account_def and_then_def)

lemma and_then_Inr: "and_then (Inr v) f = f v"
  by (simp add: and_then_def)

lemma and_then_field:
  assumes "\<And>v. \<exists>uri. g v = Inr ((k v)\<lparr> nz_requested_vhd_uri := uri \<rparr>)" and "\<And>v. f v = Inr (k v)"
  shows "(\<forall>err. and_then r f = Inl err \<longrightarrow> and_then r g = Inl err)
       \<and> (\<forall>n. and_then r f = Inr n \<longrightarrow> (\<exists>uri. and_then r g = Inr (n\<lparr> nz_requested_vhd_uri := uri \<rparr>)))"
  using assms by (cases r) (auto simp: and_then_def)

lemma and_then_nested:
  assumes "\<And>v. (\<forall>err. f v = Inl err \<longrightarrow> g v = Inl err)
       \<and> (\<forall>n. f v = Inr n \<longrightarrow> (\<exists>uri. g v = Inr (n\<lparr> nz_requested_vhd_uri := uri \<rparr>)))"
  shows "(\<forall>err. and_then r f = Inl err \<longrightarrow> and_then r g = Inl err)
       \<and> (\<forall>n. and_then r f = Inr n \<longrightarrow> (\<exists>uri. and_then r g = Inr (n\<lparr> nz_requested_vhd_uri := uri \<rparr>)))"
  using assms by (cases r) (auto simp: and_then_def)

lemma check_parameters_checked:
  assumes "ve_resource_group e = Some group_location" and "vp_state p \<noteq> StAbsent"
    and "truthy (vp_storage_account_name p)
         \<longrightarrow> (\<exists>a. ve_storage_get e h (the (vp_storage_account_name p)) = Found a)"
  shows "check_parameters e p h =
     checked e p h (if truthy (vp_location p) then the (vp_location p) else group_location)
       (if truthy (vp_storage_account_name p)
        then Some (vhd_uri (the (vp_storage_account_name p)) (vp_storage_container_name p)
                     (if truthy (vp_storage_blob_name p) then the (vp_storage_blob_name p)
                      else vp_name p @ ''.vhd''))
        else None)"
  using assms(1,2)
  by (simp add: check_parameters_def Let_def checked_def storage_lookup [OF assms(3)] and_then_Inr)

lemma checked_ignore:
  "checked e (p\<lparr> vp_admin_username := u, vp_admin_password := pw, vp_storage_account_name := sa \<rparr>)
     = checked e p"
  by (simp add: fun_eq_iff checked_def cong: if_cong)

lemma checked_uri:
  "(\<forall>err. checked e p h location a = Inl err \<longrightarrow> checked e p h location b = Inl err)
   \<and> (\<forall>n. checked e p h location a = Inr n \<longrightarrow>
         (\<exists>uri. checked e p h location b = Inr (n\<lparr> nz_requested_vhd_uri := uri \<rparr>)))"
  unfolding checked_def
  by (intro and_then_nested and_then_field allI; simp; blast)

lemma check_parameters_ignore:
  assumes lk1: "truthy sa \<longrightarrow> (\<exists>a. ve_storage_get e h (the sa) = Found a)"
    and lk2: "truthy (vp_storage_account_name p)
              \<longrightarrow> (\<exists>a. ve_storage_get e h (the (vp_storage_account_name p)) = Found a)"
  shows "(\<forall>err. check_parameters e p h = Inl err \<longrightarrow>
            check_parameters e (p\<lparr> vp_admin_username := u, vp_admin_password := pw,
                                  vp_storage_account_name := sa \<rparr>) h = Inl err)
       \<and> (\<forall>n. check_parameters e p h = Inr n \<longrightarrow>
            (\<exists>uri. check_parameters e (p\<lparr> vp_admin_username := u, vp_admin_password := pw,
                                  vp_storage_account_name := sa \<rparr>) h
                    = Inr (n\<lparr> nz_requested_vhd_uri := uri \<rparr>)))"
proof (cases "ve_resource_group e")
  case None
  then show ?thesis by (simp add: check_parameters_def)
next
  case (Some group_location)
  let ?p' = "p\<lparr> vp_admin_username := u, vp_admin_password := pw, vp_storage_account_name := sa \<rparr>"
  let ?location = "if truthy (vp_location p) then the (vp_location p) else group_location"
  show ?thesis
  proof (cases "vp_state p = StAbsent")
    case True
    let ?n = "\<lparr> nz_location = ?location, nz_network_interfaces = [], nz_image = None,
                nz_storage_blob_name = vp_storage_blob_name p, nz_requested_vhd_uri = None,
                nz_disable_ssh_password = None \<rparr>"
    have a: "check_parameters e p h = Inr ?n" "check_parameters e ?p' h = Inr ?n"
      using Some True by (simp_all add: check_parameters_def Let_def)
    have c: "?n = ?n\<lparr> nz_requested_vhd_uri := None \<rparr>" by simp
    show ?thesis
      unfolding a using c by blast
  next
    case False
    have lk1': "truthy (vp_storage_account_name ?p')
         \<longrightarrow> (\<exists>a. ve_storage_get e h (the (vp_storage_account_name ?p')) = Found a)"
      using lk1 by simp
    have st': "vp_state ?p' \<noteq> StAbsent" using False by simp
    have l: "(if truthy (vp_location ?p') then the (vp_location ?p') else group_location) = ?location"
      by simp
    show ?thesis
      unfolding check_parameters_checked [OF Some False lk2]
        check_parameters_checked [OF Some st' lk1'] checked_ignore l
      by (rule checked_uri)
  qed
qed

lemma fetch_and_compare_ignore:
  "fetch_and_compare e (p\<lparr> vp_admin_username := u, vp_admin_password := pw,
                             vp_storage_account_name := sa \<rparr>) (n\<lparr> nz_requested_vhd_uri := uri \<rparr>) h
   = fetch_and_compare e p n h"
  by (simp add: fetch_and_compare_def steps_ignore diff_vm_ignores
      cong: if_cong fetched.case_cong)

lemma apply_changes_ignore:
  assumes "f_vm f = Some vm"
  shows "apply_changes e (p\<lparr> vp_admin_username := u, vp_admin_password := pw,
                            vp_storage_account_name := sa \<rparr>) (n\<lparr> nz_requested_vhd_uri := uri \<rparr>) f
   = apply_changes e p n f"
  using assms
  by (simp add: apply_changes_def steps_ignore2 apply_power_state_ignore
      cong: if_cong option.case_cong)

lemma exec_vm_ignores:
  assumes g: "ve_vm_get e h = Found vm"
    and lk1: "truthy sa \<longrightarrow> (\<exists>a. ve_storage_get e h (the sa) = Found a)"
    and lk2: "truthy (vp_storage_account_name p)
              \<longrightarrow> (\<exists>a. ve_storage_get e h (the (vp_storage_account_name p)) = Found a)"
  shows "exec_vm e (p\<lparr> vp_admin_username := u, vp_admin_password := pw,
                      vp_storage_account_name := sa \<rparr>) h = exec_vm e p h"
proof (cases "check_parameters e p h")
  case (Inl err)
  with check_parameters_ignore [OF lk1 lk2, where u = u and pw = pw]
  have "check_parameters e (p\<lparr> vp_admin_username := u, vp_admin_password := pw,
                      vp_storage_account_name := sa \<rparr>) h = Inl err"
    by blast
  then show ?thesis
    by (simp add: exec_vm_def Inl)
next
  case (Inr n)
  with check_parameters_ignore [OF lk1 lk2, where u = u and pw = pw] obtain uri
    where n': "check_parameters e (p\<lparr> vp_admin_username := u, vp_admin_password := pw,
                      vp_storage_account_name := sa \<rparr>) h = Inr (n\<lparr> nz_requested_vhd_uri := uri \<rparr>)"
    by blast
  show ?thesis
  proof (cases "fetch_and_compare e p n h")
    case (Inl err)
    then show ?thesis by (simp add: exec_vm_def Inr n' fetch_and_compare_ignore)
  next
    case f: (Inr f)
    from fetch_found_vm [OF f g] have "f_vm f = Some vm" .
    then show ?thesis
      by (simp add: exec_vm_def Inr n' fetch_and_compare_ignore f apply_changes_ignore Let_def)
  qed
qed

lemma and_then_fails:
  assumes "\<And>v. \<exists>err. f v = Inl err"
  shows "\<exists>err. and_then r f = Inl err"
  using assms by (cases r) (auto simp: and_then_def)

lemma unknown_storage_account_stops:
  assumes st: "vp_state p \<noteq> StAbsent" and sa: "truthy sa"
    and nf: "\<forall>a. ve_storage_get e h (the sa) \<noteq> Found a"
  shows "\<exists>err. check_parameters e (p\<lparr> vp_admin_username := u, vp_admin_password := pw,
                                         vp_storage_account_name := sa \<rparr>) h = Inl err"
proof (cases "ve_resource_group e")
  case None
  then show ?thesis by (simp add: check_parameters_def)
next
  case (Some group_location)
  have l: "get_storage_account e h (the sa) = Inl (Fail ''Error fetching storage account'')"
    using nf by (cases "ve_storage_get e h (the sa)") (simp_all add: get_storage_account_def)
  have last: "\<And>f g. \<exists>err. and_then (and_then (get_storage_account e h (the sa)) f) g = Inl err"
    by (simp add: l and_then_def)
  show ?thesis
    using st sa
    apply (simp add: check_parameters_def Some Let_def split del: if_split cong: if_cong)
    apply (rule and_then_fails)
    apply (rule and_then_fails)
    apply (rule and_then_fails)
    apply (rule and_then_fails)
    apply (rule last)
    done
qed

lemma exec_vm_unknown_storage_account:
  assumes "vp_state p \<noteq> StAbsent" and "truthy sa"
    and "\<forall>a. ve_storage_get e h (the sa) \<noteq> Found a"
  shows "x_failed (exec_vm e (p\<lparr> vp_admin_username := u, vp_admin_password := pw,
                                 vp_storage_account_name := sa \<rparr>) h) \<noteq> None
       \<and> x_calls (exec_vm e (p\<lparr> vp_admin_username := u, vp_admin_password := pw,
                                 vp_storage_account_name := sa \<rparr>) h) = h"
proof -
  from unknown_storage_account_stops [OF assms, where u = u and pw = pw] obtain err
    where "check_parameters e (p\<lparr> vp_admin_username := u, vp_admin_password := pw,
                                   vp_storage_account_name := sa \<rparr>) h = Inl err" ..
  then show ?thesis
    by (simp add: exec_vm_def finish_def)
qed

text \<open>
  C7, amended.  Whatever the parameters are, the update built from the compared machine
  carries the admin user name and the VHD URI of the current machine, and its admin
  password (an empty password is not sent, as none is not); the differences hold no
  entry for them; and the comparison is the same whatever admin user name, admin
  password and storage account (hence requested VHD URI) the parameters supply.  For a
  machine that exists the whole invocation (failure, results and calls) is the same
  whatever admin user name and admin password are supplied, and whatever storage account
  is named as long as every storage account that is named can be fetched.  The storage
  account that is named is fetched before the machine is: for an intent other than
  absent, a named storage account that cannot be fetched fails the invocation, and no
  call is issued.
\<close>

theorem immutable_fields_ignored:
  "vr_admin_username (update_resource (c_vm_dict (diff_vm e p n d))) = op_admin_username (vd_os_profile d)
   \<and> vr_admin_password (update_resource (c_vm_dict (diff_vm e p n d)))
       = (if truthy (op_admin_password (vd_os_profile d)) then op_admin_password (vd_os_profile d)
          else None)
   \<and> pd_vhd_uri (vr_os_disk (update_resource (c_vm_dict (diff_vm e p n d))))
       = Some (od_vhd_uri (vd_os_disk d))
   \<and> ''Admin Username'' \<notin> set (c_differences (diff_vm e p n d))
   \<and> ''OS Disk VHD uri'' \<notin> set (c_differences (diff_vm e p n d))
   \<and> diff_vm e (p\<lparr> vp_admin_username := u, vp_admin_password := pw,
                    vp_storage_account_name := sa \<rparr>) (n\<lparr> nz_requested_vhd_uri := uri \<rparr>) d
       = diff_vm e p n d
   \<and> (ve_vm_get e h = Found vm
       \<and> (truthy sa \<longrightarrow> (\<exists>a. ve_storage_get e h (the sa) = Found a))
       \<and> (truthy (vp_storage_account_name p)
            \<longrightarrow> (\<exists>a. ve_storage_get e h (the (vp_storage_account_name p)) = Found a))
      \<longrightarrow> exec_vm e (p\<lparr> vp_admin_username := u, vp_admin_password := pw,
                         vp_storage_account_name := sa \<rparr>) h = exec_vm e p h)
   \<and> (vp_state p \<noteq> StAbsent \<and> truthy sa \<and> (\<forall>a. ve_storage_get e h (the sa) \<noteq> Found a)
      \<longrightarrow> x_failed (exec_vm e (p\<lparr> vp_admin_username := u, vp_admin_password := pw,
                                   vp_storage_account_name := sa \<rparr>) h) \<noteq> None
          \<and> x_calls (exec_vm e (p\<lparr> vp_admin_username := u, vp_admin_password := pw,
                                   vp_storage_account_name := sa \<rparr>) h) = h)"
proof -
  have fields:
    "vr_admin_username (update_resource (c_vm_dict (diff_vm e p n d))) = op_admin_username (vd_os_profile d)"
    "vr_admin_password (update_resource (c_vm_dict (diff_vm e p n d)))
         = (if truthy (op_admin_password (vd_os_profile d)) then op_admin_password (vd_os_profile d)
            else None)"
    "pd_vhd_uri (vr_os_disk (update_resource (c_vm_dict (diff_vm e p n d))))
         = Some (od_vhd_uri (vd_os_disk d))"
    by (simp_all add: update_resource_def diff_vm_keeps)
  note labels = diff_vm_no_immutable_label [of e p n d]
  note same = diff_vm_ignores [where e = e and p = p and u = u and pw = pw and sa = sa
      and n = n and uri = uri and d = d]
  have run: "ve_vm_get e h = Found vm
       \<and> (truthy sa \<longrightarrow> (\<exists>a. ve_storage_get e h (the sa) = Found a))
       \<and> (truthy (vp_storage_account_name p)
            \<longrightarrow> (\<exists>a. ve_storage_get e h (the (vp_storage_account_name p)) = Found a))
      \<longrightarrow> exec_vm e (p\<lparr> vp_admin_username := u, vp_admin_password := pw,
                         vp_storage_account_name := sa \<rparr>) h = exec_vm e p h"
    using exec_vm_ignores [where e = e and h = h and vm = vm and sa = sa and p = p and u = u and pw = pw]
    by blast
  have stop: "vp_state p \<noteq> StAbsent \<and> truthy sa \<and> (\<forall>a. ve_storage_get e h (the sa) \<noteq> Found a)
      \<longrightarrow> x_failed (exec_vm e (p\<lparr> vp_admin_username := u, vp_admin_password := pw,
                                   vp_storage_account_name := sa \<rparr>) h) \<noteq> None
          \<and> x_calls (exec_vm e (p\<lparr> vp_admin_username := u, vp_admin_password := pw,
                                   vp_storage_account_name := sa \<rparr>) h) = h"
    using exec_vm_unknown_storage_account [where e = e and h = h and sa = sa and p = p and u = u and pw = pw]
    by blast
  show ?thesis
    by (intro conjI fields labels same run stop)
qed

theorem immutable_fields_ignored_witness:
  "(let e = machine_plane (Some stopped_vm);
        p = want_vm\<lparr> vp_vm_size := Some ''Standard_D2'' \<rparr>;
        q = p\<lparr> vp_admin_username := Some ''root'', vp_admin_password := Some ''secret'',
               vp_storage_account_name := Some ''testvm02'' \<rparr>;
        n = projr (check_parameters e q []);
        d = projr (serialize_vm e q [] stopped_vm);
        r = update_resource (c_vm_dict (diff_vm e q n d))
    in exec_vm e q [] = exec_vm e p []
       \<and> x_failed (exec_vm e q []) = None
       \<and> s_differences (x_results (exec_vm e q [])) = Some [''VM Size'']
       \<and> x_calls (exec_vm e q []) = [CreateOrUpdateVM r]
       \<and> nz_requested_vhd_uri n = Some ''https://testvm02.blob.core.windows.net/vhds/testvm.vhd''
       \<and> vr_admin_username r = ''chouseknecht''
       \<and> vr_admin_password r = None
       \<and> pd_vhd_uri (vr_os_disk r) = Some ''https://testvm01.blob.core.windows.net/vhds/testvm.vhd''
       \<and> x_failed (exec_vm e (p\<lparr> vp_admin_username := Some ''root'',
                                   vp_admin_password := Some ''secret'',
                                   vp_storage_account_name := Some ''nosuch'' \<rparr>) []) \<noteq> None
       \<and> x_calls (exec_vm e (p\<lparr> vp_admin_username := Some ''root'',
                                  vp_admin_password := Some ''secret'',
                                  vp_storage_account_name := Some ''nosuch'' \<rparr>) []) = [])"
proof -
  let ?e = "machine_plane (Some stopped_vm)"
  let ?p = "want_vm\<lparr> vp_vm_size := Some ''Standard_D2'' \<rparr>"
  let ?q = "?p\<lparr> vp_admin_username := Some ''root'', vp_admin_password := Some ''secret'',
                 vp_storage_account_name := Some ''testvm02'' \<rparr>"
  let ?n = "projr (check_parameters ?e ?q [])"
  let ?d = "projr (serialize_vm ?e ?q [] stopped_vm)"
  let ?r = "update_resource (c_vm_dict (diff_vm ?e ?q ?n ?d))"
  have known: "ve_vm_get ?e [] = Found stopped_vm
      \<and> (truthy (Some ''testvm02'') \<longrightarrow> (\<exists>a. ve_storage_get ?e [] (the (Some ''testvm02'')) = Found a))
      \<and> (truthy (vp_storage_account_name ?p)
           \<longrightarrow> (\<exists>a. ve_storage_get ?e [] (the (vp_storage_account_name ?p)) = Found a))"
    by (simp add: machine_plane_def want_vm_def truthy_def)
  have unknown: "vp_state ?p \<noteq> StAbsent \<and> truthy (Some ''nosuch'')
      \<and> (\<forall>a. ve_storage_get ?e [] (the (Some ''nosuch'')) \<noteq> Found a)"
    by (simp add: machine_plane_def want_vm_def truthy_def)
  note same = immutable_fields_ignored
         [where e = ?e and h = "[]" and vm = stopped_vm and sa = "Some ''testvm02''" and p = ?p
            and u = "Some ''root''" and pw = "Some ''secret''",
          THEN conjunct2, THEN conjunct2, THEN conjunct2, THEN conjunct2, THEN conjunct2,
          THEN conjunct2, THEN conjunct1, THEN mp, OF known]
  note stop = immutable_fields_ignored
         [where e = ?e and h = "[]" and sa = "Some ''nosuch''" and p = ?p
            and u = "Some ''root''" and pw = "Some ''secret''",
          THEN conjunct2, THEN conjunct2, THEN conjunct2, THEN conjunct2, THEN conjunct2,
          THEN conjunct2, THEN conjunct2, THEN mp, OF unknown]
  note fields = immutable_fields_ignored [where e = ?e and p = ?q and n = ?n and d = ?d]
  have current: "op_admin_username (vd_os_profile ?d) = ''chouseknecht''"
    "op_admin_password (vd_os_profile ?d) = None"
    "od_vhd_uri (vd_os_disk ?d) = ''https://testvm01.blob.core.windows.net/vhds/testvm.vhd''"
    by (simp_all add: vm_defs machine_defs)
  have a: "exec_vm ?e ?q [] = exec_vm ?e ?p []"
    by (rule same)
  have b: "x_failed (exec_vm ?e ?q []) = None"
    by (simp add: vm_defs machine_defs)
  have c: "s_differences (x_results (exec_vm ?e ?q [])) = Some [''VM Size'']"
    by (simp add: vm_defs machine_defs)
  have d: "x_calls (exec_vm ?e ?q []) = [CreateOrUpdateVM ?r]"
    by (simp add: vm_defs machine_defs)
  have e: "nz_requested_vhd_uri ?n = Some ''https://testvm02.blob.core.windows.net/vhds/testvm.vhd''"
    by (simp add: vm_defs machine_defs)
  have f: "vr_admin_username ?r = ''chouseknecht''"
    using fields [THEN conjunct1] by (simp only: current)
  have g: "vr_admin_password ?r = None"
    using fields [THEN conjunct2, THEN conjunct1] by (simp only: current truthy_def option.case if_False)
  have h: "pd_vhd_uri (vr_os_disk ?r) = Some ''https://testvm01.blob.core.windows.net/vhds/testvm.vhd''"
    using fields [THEN conjunct2, THEN conjunct2, THEN conjunct1] by (simp only: current)
  show ?thesis
    unfolding Let_def
    by (intro conjI a b c d e f g h stop [THEN conjunct1] stop [THEN conjunct2])
qed

text \<open>
  C7, as the specification has it, fails for the storage account.  The machine exists
  and its size differs from the requested one, so that an update is due and is sent
  when no storage account is named.  When the parameters name a storage account that
  cannot be fetched, the attempt is not ignored: the invocation fails with
  \<^verbatim>\<open>Error fetching storage account\<close>, and no update is sent.
\<close>

theorem unknown_storage_account_stops_update:
  "ve_vm_get (machine_plane (Some stopped_vm)) [] = Found stopped_vm
   \<and> x_failed (exec_vm (machine_plane (Some stopped_vm))
                 (want_vm\<lparr> vp_vm_size := Some ''Standard_D2'' \<rparr>) []) = None
   \<and> s_differences (x_results (exec_vm (machine_plane (Some stopped_vm))
                 (want_vm\<lparr> vp_vm_size := Some ''Standard_D2'' \<rparr>) [])) = Some [''VM Size'']
   \<and> length (x_calls (exec_vm (machine_plane (Some stopped_vm))
                 (want_vm\<lparr> vp_vm_size := Some ''Standard_D2'' \<rparr>) [])) = 1
   \<and> x_failed (exec_vm (machine_plane (Some stopped_vm))
                 (want_vm\<lparr> vp_vm_size := Some ''Standard_D2'',
                           vp_storage_account_name := Some ''nosuch'' \<rparr>) [])
       = Some (Fail ''Error fetching storage account'')
   \<and> x_calls (exec_vm (machine_plane (Some stopped_vm))
                 (want_vm\<lparr> vp_vm_size := Some ''Standard_D2'',
                           vp_storage_account_name := Some ''nosuch'' \<rparr>) []) = []"
  by (simp add: vm_defs machine_defs)

section \<open>The power state\<close>


























section \<open>The cascade of a deletion\<close>

lemma issued_append:
  "issued e h (xs @ ys) =
     (if snd (issued e h xs)
      then (xs @ fst (issued e (h @ xs) ys), snd (issued e (h @ xs) ys))
      else issued e h xs)"
  by (induction xs arbitrary: h) (simp_all add: prod_eq_iff)

lemma issued_all: "snd (issued e h xs) \<Longrightarrow> fst (issued e h xs) = xs"
  by (induction xs arbitrary: h) (simp_all split: if_splits)

lemma issued_prefix: "\<exists>k \<le> length xs. fst (issued e h xs) = take k xs"
proof (induction xs arbitrary: h)
  case Nil
  then show ?case by simp
next
  case (Cons x xs)
  show ?case
  proof (cases "ve_call_ok e h x")
    case True
    from Cons [of "h @ [x]"] obtain k where "k \<le> length xs" "fst (issued e (h @ [x]) xs) = take k xs"
      by blast
    with True have "Suc k \<le> length (x # xs) \<and> fst (issued e h (x # xs)) = take (Suc k) (x # xs)"
      by simp
    then show ?thesis by blast
  next
    case False
    then have "Suc 0 \<le> length (x # xs) \<and> fst (issued e h (x # xs)) = take (Suc 0) (x # xs)"
      by simp
    then show ?thesis by blast
  qed
qed

lemma for_each_issue:
  assumes f: "\<And>x. f x = next_step (action (a x)) (\<lambda>_. issue e (mk x) (m x))"
  shows "w_calls (snd (for_each f xs w)) = w_calls w @ fst (issued e (w_calls w) (map mk xs))
         \<and> (fst (for_each f xs w) = Inr ()) = snd (issued e (w_calls w) (map mk xs))"
proof (induction xs arbitrary: w)
  case Nil
  then show ?case by (simp add: pure_def)
next
  case (Cons x xs)
  let ?w1 = "w\<lparr> w_results := (w_results w)\<lparr> s_actions := s_actions (w_results w) @ [a x] \<rparr> \<rparr>"
  show ?case
  proof (cases "ve_call_ok e (w_calls w) (mk x)")
    case True
    then have step: "f x w = (Inr (), ?w1\<lparr> w_calls := w_calls w @ [mk x] \<rparr>)"
      by (simp add: f next_step_def action_def issue_def)
    show ?thesis
      using Cons [of "?w1\<lparr> w_calls := w_calls w @ [mk x] \<rparr>"] True
      by (simp add: next_step_def step)
  next
    case False
    then have step: "f x w = (Inl (Fail (m x)), ?w1\<lparr> w_calls := w_calls w @ [mk x] \<rparr>)"
      by (simp add: f next_step_def action_def issue_def)
    show ?thesis
      using False by (simp add: next_step_def step)
  qed
qed

lemmas delete_nics_issue =
  for_each_issue [where f = "delete_nic e" and e = e and mk = DeleteNic
     and a = "\<lambda>name. ''Deleted network interface '' @ name"
     and m = "\<lambda>name. ''Error deleting network interface '' @ name", OF delete_nic_def] for e

lemmas delete_pips_issue =
  for_each_issue [where f = "delete_pip e" and e = e and mk = DeletePip
     and a = "\<lambda>name. ''Deleted public IP '' @ name"
     and m = "\<lambda>name. ''Error deleting '' @ name", OF delete_pip_def] for e


lemma collect_names_calls: "w_calls (snd (collect_names e p vm w)) = w_calls w"
  by (simp add: collect_names_def next_step_def pure_def lift_def calls_so_far_def
      split: sum.splits prod.splits)

lemma collect_names_found:
  assumes "vp_delete_virtual_storage p" "vp_delete_network_interfaces p" "vp_delete_public_ips p"
    and "map_err (\<lambda>i. id_part e i ''networkInterfaces'') (m_network_interfaces vm) = Inr nic_names"
    and "map_err (public_ip_names e (w_calls w)) nic_names = Inr found"
  shows "fst (collect_names e p vm w) = Inr ([od_vhd_uri (m_os_disk vm)], nic_names, concat found)"
  using assms
  by (simp add: collect_names_def next_step_def pure_def lift_def calls_so_far_def)

lemma collect_names_not_found:
  assumes "vp_delete_virtual_storage p" "vp_delete_network_interfaces p" "vp_delete_public_ips p"
    and "\<forall>nic_names found.
           map_err (\<lambda>i. id_part e i ''networkInterfaces'') (m_network_interfaces vm) = Inr nic_names
           \<longrightarrow> map_err (public_ip_names e (w_calls w)) nic_names \<noteq> Inr found"
  shows "\<exists>err. fst (collect_names e p vm w) = Inl err"
  using assms
  by (auto simp: collect_names_def next_step_def pure_def lift_def calls_so_far_def
      split: sum.splits)

lemma delete_blob_run:
  assumes "extract_names_from_blob_uri uri = Some (account, container, name)"
    and "ve_blob_client e (w_calls w) account"
  shows "w_calls (snd (delete_blob e uri w)) = w_calls w @ [DeleteBlob account container name]"
    and "(fst (delete_blob e uri w) = Inr ()) = ve_call_ok e (w_calls w) (DeleteBlob account container name)"
  using assms
  by (simp_all add: delete_blob_def next_step_def calls_so_far_def action_def issue_def)

lemma delete_blob_stuck:
  assumes "extract_names_from_blob_uri uri = None
           \<or> (\<exists>blob. extract_names_from_blob_uri uri = Some blob \<and> \<not> ve_blob_client e (w_calls w) (fst blob))"
  shows "w_calls (snd (delete_blob e uri w)) = w_calls w" and "\<exists>err. fst (delete_blob e uri w) = Inl err"
  using assms
  by (auto simp: delete_blob_def next_step_def calls_so_far_def failing_def)


lemma delete_vm_storage_run:
  assumes "extract_names_from_blob_uri uri = Some (account, container, name)"
    and "ve_blob_client e (w_calls w) account"
  shows "w_calls (snd (delete_vm_storage e [uri] w)) = w_calls w @ [DeleteBlob account container name]"
    and "(fst (delete_vm_storage e [uri] w) = Inr ()) = ve_call_ok e (w_calls w) (DeleteBlob account container name)"
  using delete_blob_run [OF assms]
  by (simp_all add: delete_vm_storage_def next_step_pure)

lemma delete_vm_storage_stuck:
  assumes "extract_names_from_blob_uri uri = None
           \<or> (\<exists>blob. extract_names_from_blob_uri uri = Some blob \<and> \<not> ve_blob_client e (w_calls w) (fst blob))"
  shows "w_calls (snd (delete_vm_storage e [uri] w)) = w_calls w"
    and "fst (delete_vm_storage e [uri] w) \<noteq> Inr ()"
  using delete_blob_stuck [OF assms]
  by (auto simp: delete_vm_storage_def next_step_pure)

lemma cascade_after_vm:
  assumes x: "extract_names_from_blob_uri uri = Some (account, container, name)"
    and b: "ve_blob_client e (w_calls w) account"
  shows "w_calls (snd (next_step (delete_vm_storage e [uri]) (\<lambda>_.
            next_step (for_each (delete_nic e) nic_names) (\<lambda>_.
              for_each (delete_pip e) pip_names)) w))
         = w_calls w @ fst (issued e (w_calls w)
              (DeleteBlob account container name # map DeleteNic nic_names @ map DeletePip pip_names))"
    and "(fst (next_step (delete_vm_storage e [uri]) (\<lambda>_.
            next_step (for_each (delete_nic e) nic_names) (\<lambda>_.
              for_each (delete_pip e) pip_names)) w) = Inr ())
         = snd (issued e (w_calls w)
              (DeleteBlob account container name # map DeleteNic nic_names @ map DeletePip pip_names))"
  using delete_vm_storage_run [OF x b]
  by (simp_all add: seq_unit delete_nics_issue delete_pips_issue issued_append issued_all)


lemma delete_vm_found:
  assumes flags: "vp_delete_virtual_storage p" "vp_delete_network_interfaces p" "vp_delete_public_ips p"
    and names: "map_err (\<lambda>i. id_part e i ''networkInterfaces'') (m_network_interfaces vm) = Inr nic_names"
      "map_err (public_ip_names e (w_calls w)) nic_names = Inr found"
  shows "delete_vm e p vm w =
    next_step (action (''Deleted virtual machine '' @ vp_name p)) (\<lambda>_.
     next_step (issue e DeleteVM (''Error deleting virtual machine '' @ vp_name p)) (\<lambda>_.
     next_step (delete_vm_storage e [od_vhd_uri (m_os_disk vm)]) (\<lambda>_.
     next_step (for_each (delete_nic e) nic_names) (\<lambda>_.
       for_each (delete_pip e) (concat found))))) (snd (collect_names e p vm w))"
  using flags by (simp add: delete_vm_def next_step_Inr [where m = "collect_names e p vm" and w = w, OF collect_names_found [OF flags names]])

text \<open>
  C4.  A deletion with all three cascade flags set.  When the names of the interfaces
  and of their public IPs can be collected, the VHD URI can be parsed and the blob client
  can be had, the calls issued are those of the cascade (the machine, the blob, each
  interface, each public IP, in this order), one after the other up to the first that
  fails, and the deletion succeeds exactly when all of them do.  When the URI cannot be
  parsed or the blob client cannot be had, only the machine's deletion is issued and the
  invocation fails; when the names cannot be collected, nothing is issued and it fails.
\<close>

theorem cascade_delete_in_order:
  assumes flags: "vp_delete_virtual_storage p" "vp_delete_network_interfaces p" "vp_delete_public_ips p"
  shows
   "(\<forall>nic_names found blob.
       map_err (\<lambda>i. id_part e i ''networkInterfaces'') (m_network_interfaces vm) = Inr nic_names
       \<and> map_err (public_ip_names e (w_calls w)) nic_names = Inr found
       \<and> extract_names_from_blob_uri (od_vhd_uri (m_os_disk vm)) = Some blob
       \<and> ve_blob_client e (w_calls w @ [DeleteVM]) (fst blob)
       \<longrightarrow> w_calls (snd (delete_vm e p vm w))
             = w_calls w @ fst (issued e (w_calls w) (cascade blob nic_names (concat found)))
           \<and> (fst (delete_vm e p vm w) = Inr ())
             = snd (issued e (w_calls w) (cascade blob nic_names (concat found))))
    \<and> (\<forall>nic_names found.
       map_err (\<lambda>i. id_part e i ''networkInterfaces'') (m_network_interfaces vm) = Inr nic_names
       \<and> map_err (public_ip_names e (w_calls w)) nic_names = Inr found
       \<and> (extract_names_from_blob_uri (od_vhd_uri (m_os_disk vm)) = None
          \<or> (\<exists>blob. extract_names_from_blob_uri (od_vhd_uri (m_os_disk vm)) = Some blob
                \<and> \<not> ve_blob_client e (w_calls w @ [DeleteVM]) (fst blob)))
       \<longrightarrow> w_calls (snd (delete_vm e p vm w)) = w_calls w @ [DeleteVM]
           \<and> fst (delete_vm e p vm w) \<noteq> Inr ())
    \<and> ((\<forall>nic_names found.
       map_err (\<lambda>i. id_part e i ''networkInterfaces'') (m_network_interfaces vm) = Inr nic_names
       \<longrightarrow> map_err (public_ip_names e (w_calls w)) nic_names \<noteq> Inr found)
       \<longrightarrow> w_calls (snd (delete_vm e p vm w)) = w_calls w
           \<and> fst (delete_vm e p vm w) \<noteq> Inr ())"
proof (intro conjI allI impI)
  fix nic_names found blob
  assume a: "map_err (\<lambda>i. id_part e i ''networkInterfaces'') (m_network_interfaces vm) = Inr nic_names
       \<and> map_err (public_ip_names e (w_calls w)) nic_names = Inr found
       \<and> extract_names_from_blob_uri (od_vhd_uri (m_os_disk vm)) = Some blob
       \<and> ve_blob_client e (w_calls w @ [DeleteVM]) (fst blob)"
  obtain account container name where blob: "blob = (account, container, name)"
    by (cases blob) auto
  let ?w1 = "snd (collect_names e p vm w)"
  let ?w2 = "snd (action (''Deleted virtual machine '' @ vp_name p) ?w1)"
  let ?w3 = "snd (issue e DeleteVM (''Error deleting virtual machine '' @ vp_name p) ?w2)"
  have c3: "w_calls ?w3 = w_calls w @ [DeleteVM]"
    by (simp add: issue_run action_run collect_names_calls)
  have x: "extract_names_from_blob_uri (od_vhd_uri (m_os_disk vm)) = Some (account, container, name)"
    using a blob by simp
  have b: "ve_blob_client e (w_calls ?w3) account"
    using a blob c3 by simp
  note tail = cascade_after_vm [OF x b, of nic_names "concat found"]
  note d = delete_vm_found [OF flags conjunct1 [OF a] conjunct1 [OF conjunct2 [OF a]]]
  show "w_calls (snd (delete_vm e p vm w))
             = w_calls w @ fst (issued e (w_calls w) (cascade blob nic_names (concat found)))"
    using tail c3
    by (simp add: d seq_unit action_run issue_run collect_names_calls cascade_def blob)
  show "(fst (delete_vm e p vm w) = Inr ())
             = snd (issued e (w_calls w) (cascade blob nic_names (concat found)))"
    using tail c3
    by (simp add: d seq_unit action_run issue_run collect_names_calls cascade_def blob)
next
  fix nic_names found
  assume a: "map_err (\<lambda>i. id_part e i ''networkInterfaces'') (m_network_interfaces vm) = Inr nic_names
       \<and> map_err (public_ip_names e (w_calls w)) nic_names = Inr found
       \<and> (extract_names_from_blob_uri (od_vhd_uri (m_os_disk vm)) = None
          \<or> (\<exists>blob. extract_names_from_blob_uri (od_vhd_uri (m_os_disk vm)) = Some blob
                \<and> \<not> ve_blob_client e (w_calls w @ [DeleteVM]) (fst blob)))"
  let ?w1 = "snd (collect_names e p vm w)"
  let ?w2 = "snd (action (''Deleted virtual machine '' @ vp_name p) ?w1)"
  let ?w3 = "snd (issue e DeleteVM (''Error deleting virtual machine '' @ vp_name p) ?w2)"
  have c3: "w_calls ?w3 = w_calls w @ [DeleteVM]"
    by (simp add: issue_run action_run collect_names_calls)
  have s: "extract_names_from_blob_uri (od_vhd_uri (m_os_disk vm)) = None
           \<or> (\<exists>blob. extract_names_from_blob_uri (od_vhd_uri (m_os_disk vm)) = Some blob
                  \<and> \<not> ve_blob_client e (w_calls ?w3) (fst blob))"
    using a c3 by simp
  note stuck = delete_vm_storage_stuck [OF s]
  note d = delete_vm_found [OF flags conjunct1 [OF a] conjunct1 [OF conjunct2 [OF a]]]
  show "w_calls (snd (delete_vm e p vm w)) = w_calls w @ [DeleteVM]"
    using stuck c3
    by (simp add: d seq_unit action_run issue_run collect_names_calls)
  show "fst (delete_vm e p vm w) \<noteq> Inr ()"
    using stuck
    by (simp add: d seq_unit action_run issue_run collect_names_calls)
next
  assume a: "\<forall>nic_names found.
       map_err (\<lambda>i. id_part e i ''networkInterfaces'') (m_network_interfaces vm) = Inr nic_names
       \<longrightarrow> map_err (public_ip_names e (w_calls w)) nic_names \<noteq> Inr found"
  from collect_names_not_found [OF flags a] obtain err
    where f: "fst (collect_names e p vm w) = Inl err" by blast
  show "w_calls (snd (delete_vm e p vm w)) = w_calls w"
    by (simp add: delete_vm_def next_step_Inl [where m = "collect_names e p vm" and w = w, OF f] collect_names_calls)
  show "fst (delete_vm e p vm w) \<noteq> Inr ()"
    by (simp add: delete_vm_def next_step_Inl [where m = "collect_names e p vm" and w = w, OF f])
qed

theorem cascade_delete_in_order_witness:
  "w_calls (snd (delete_vm (machine_plane (Some running_vm)) delete_all running_vm fresh_world))
     = [DeleteVM, DeleteBlob ''testvm01'' ''vhds'' ''testvm.vhd'', DeleteNic ''testvm01'',
        DeletePip ''testvm01'']
   \<and> fst (delete_vm (machine_plane (Some running_vm)) delete_all running_vm fresh_world) = Inr ()
   \<and> w_calls (snd (delete_vm refusing_plane delete_all running_vm fresh_world))
     = [DeleteVM, DeleteBlob ''testvm01'' ''vhds'' ''testvm.vhd'', DeleteNic ''testvm01'']
   \<and> fst (delete_vm refusing_plane delete_all running_vm fresh_world) \<noteq> Inr ()
   \<and> w_calls (snd (delete_vm (machine_plane (Some running_vm)) delete_all
                       (running_vm\<lparr> m_os_disk := (m_os_disk running_vm)\<lparr> od_vhd_uri := ''http://testvm01/vhds'' \<rparr> \<rparr>)
                       fresh_world)) = [DeleteVM]
   \<and> w_calls (snd (delete_vm (machine_plane (Some running_vm)) delete_all
                       (running_vm\<lparr> m_network_interfaces := [''testvm01''] \<rparr>) fresh_world)) = []"
proof -
  have flags: "vp_delete_virtual_storage delete_all" "vp_delete_network_interfaces delete_all"
    "vp_delete_public_ips delete_all"
    by (simp_all add: delete_all_def)
  have found: "map_err (\<lambda>i. id_part e i ''networkInterfaces'') (m_network_interfaces running_vm)
                 = Inr [''testvm01'']
       \<and> map_err (public_ip_names e (w_calls fresh_world)) [''testvm01''] = Inr [[''testvm01'']]
       \<and> extract_names_from_blob_uri (od_vhd_uri (m_os_disk running_vm))
           = Some (''testvm01'', ''vhds'', ''testvm.vhd'')
       \<and> ve_blob_client e (w_calls fresh_world @ [DeleteVM]) (fst (''testvm01'', ''vhds'', ''testvm.vhd''))"
    if "e = machine_plane (Some running_vm) \<or> e = refusing_plane" for e
    using that by (auto simp: vm_defs machine_defs split_on.simps)
  note run = cascade_delete_in_order [OF flags, THEN conjunct1, rule_format, OF found]
  have 1: "issued (machine_plane (Some running_vm)) [] (cascade (''testvm01'', ''vhds'', ''testvm.vhd'')
                [''testvm01''] (concat [[''testvm01'']]))
           = ([DeleteVM, DeleteBlob ''testvm01'' ''vhds'' ''testvm.vhd'', DeleteNic ''testvm01'',
               DeletePip ''testvm01''], True)"
    by (simp add: cascade_def machine_plane_def)
  have 2: "issued refusing_plane [] (cascade (''testvm01'', ''vhds'', ''testvm.vhd'')
                [''testvm01''] (concat [[''testvm01'']]))
           = ([DeleteVM, DeleteBlob ''testvm01'' ''vhds'' ''testvm.vhd'', DeleteNic ''testvm01''], False)"
    by (simp add: cascade_def refusing_plane_def machine_plane_def)
  have w: "w_calls fresh_world = []" by (simp add: fresh_world_def)
  let ?odd = "running_vm\<lparr> m_os_disk := (m_os_disk running_vm)\<lparr> od_vhd_uri := ''http://testvm01/vhds'' \<rparr> \<rparr>"
  have unparsed: "map_err (\<lambda>i. id_part (machine_plane (Some running_vm)) i ''networkInterfaces'')
                    (m_network_interfaces ?odd) = Inr [''testvm01'']
       \<and> map_err (public_ip_names (machine_plane (Some running_vm)) (w_calls fresh_world)) [''testvm01'']
           = Inr [[''testvm01'']]
       \<and> (extract_names_from_blob_uri (od_vhd_uri (m_os_disk ?odd)) = None
          \<or> (\<exists>blob. extract_names_from_blob_uri (od_vhd_uri (m_os_disk ?odd)) = Some blob
                \<and> \<not> ve_blob_client (machine_plane (Some running_vm)) (w_calls fresh_world @ [DeleteVM])
                       (fst blob)))"
    by (simp add: vm_defs machine_defs split_on.simps)
  note 3 = cascade_delete_in_order [OF flags, THEN conjunct2, THEN conjunct1, rule_format, OF unparsed]
  let ?lost = "running_vm\<lparr> m_network_interfaces := [''testvm01''] \<rparr>"
  have uncollected: "\<forall>nic_names found.
       map_err (\<lambda>i. id_part (machine_plane (Some running_vm)) i ''networkInterfaces'')
         (m_network_interfaces ?lost) = Inr nic_names
       \<longrightarrow> map_err (public_ip_names (machine_plane (Some running_vm)) (w_calls fresh_world)) nic_names
             \<noteq> Inr found"
    by (simp add: vm_defs machine_defs split_on.simps)
  note 4 = cascade_delete_in_order [OF flags, THEN conjunct2, THEN conjunct2, THEN mp, OF uncollected]
  from run [of "machine_plane (Some running_vm)"] run [of refusing_plane] 3 4
  show ?thesis unfolding w 1 2 by simp
qed

section \<open>Validation failures\<close>

lemma not_parameter_error [simp]:
  "\<not> parameter_error (KeyError k)" "\<not> parameter_error (AttributeError a)"
  "\<not> parameter_error (TypeError t)" "\<not> parameter_error (Raised r)"
  "\<not> parameter_error (IndexError i)"
  "c \<noteq> CHR ''P'' \<Longrightarrow> \<not> parameter_error (Fail (c # rest))"
  by (simp_all add: parameter_error_def startswith_def)

named_theorems quiet_intros

lemma quiet_basic [quiet_intros]:
  "quiet (pure v)" "quiet (action msg)" "quiet (set_results d)" "quiet calls_so_far"
  by (simp_all add: quiet_def pure_def action_def set_results_def calls_so_far_def)

lemma quiet_failing [quiet_intros]: "\<not> parameter_error err \<Longrightarrow> quiet (failing err)"
  by (simp add: quiet_def failing_def)

lemma quiet_issue [quiet_intros]: "\<not> parameter_error (Fail msg) \<Longrightarrow> quiet (issue e call msg)"
  by (simp add: quiet_def issue_def split: if_splits)

lemma quiet_lift [quiet_intros]: "silent r \<Longrightarrow> quiet (lift r)"
  by (simp add: quiet_def lift_def silent_def)

lemma quiet_next [quiet_intros]: "quiet m \<Longrightarrow> (\<And>v. quiet (f v)) \<Longrightarrow> quiet (next_step m f)"
  by (auto simp: quiet_def next_step_def split: prod.splits sum.splits)

lemma quiet_if [quiet_intros]:
  "(c \<Longrightarrow> quiet a) \<Longrightarrow> (\<not> c \<Longrightarrow> quiet b) \<Longrightarrow> quiet (if c then a else b)"
  by simp

lemma quiet_for_each [quiet_intros]: "(\<And>x. quiet (f x)) \<Longrightarrow> quiet (for_each f xs)"
  by (induction xs) (simp_all add: quiet_intros)

lemma silent_Inr [simp]: "silent (Inr v)"
  by (simp add: silent_def)

lemma silent_Inl [simp]: "silent (Inl err) = (\<not> parameter_error err)"
  by (simp add: silent_def)

lemma silent_and_then: "silent r \<Longrightarrow> (\<And>v. silent (f v)) \<Longrightarrow> silent (and_then r f)"
  by (cases r) (simp_all add: and_then_def)

lemma silent_map_err: "(\<And>x. silent (f x)) \<Longrightarrow> silent (map_err f xs)"
proof (induction xs)
  case Nil
  then show ?case by simp
next
  case (Cons x xs)
  then have "silent (f x)" and "silent (map_err f xs)" by simp_all
  then show ?case
    by (cases "f x"; cases "map_err f xs") simp_all
qed

lemma silent_getitem [simp]: "silent (getitem k slot)"
  by (cases slot) (simp_all add: getitem_def)

lemma silent_reads [simp]:
  "silent (id_part e i k)" "silent (get_network_interface e h name)" "silent (get_vm e h)"
  "silent (get_storage_account e h name)"
  by (simp_all add: id_part_def get_network_interface_def get_vm_def get_storage_account_def
      split: fetched.splits)

lemma silent_expand_interfaces [simp]: "silent (expand_interfaces e h ids ds)"
  by (induction ids arbitrary: ds) (simp_all add: silent_and_then)

lemma silent_expand_config [simp]: "silent (expand_config e h config)"
  by (simp add: expand_config_def silent_and_then split: option.splits)

lemma silent_expand_public_ips [simp]: "silent (expand_public_ips e h d)"
  by (simp add: expand_public_ips_def silent_and_then silent_map_err)

lemma silent_serialize_vm [simp]: "silent (serialize_vm e p h vm)"
  by (simp add: serialize_vm_def Let_def silent_and_then silent_map_err)

lemma silent_fetch_and_compare [simp]: "silent (fetch_and_compare e p n h)"
  by (simp add: fetch_and_compare_def Let_def silent_and_then split: fetched.splits)

lemma silent_public_ip_names [simp]: "silent (public_ip_names e h name)"
  by (simp add: public_ip_names_def silent_and_then silent_map_err)

lemma silent_find [simp]: "silent (find_virtual_network e p)" "silent (find_subnet e p v)"
  by (simp_all add: find_virtual_network_def find_subnet_def split: fetched.splits list.splits option.splits)


lemma quiet_create_or_update_vm [quiet_intros]: "quiet (create_or_update_vm e p r)"
  by (auto simp: create_or_update_vm_def intro!: quiet_intros)

lemma quiet_refresh_results [quiet_intros]: "quiet (refresh_results e p)"
  by (auto simp: refresh_results_def intro!: quiet_intros)

lemma quiet_reported_power_state [quiet_intros]: "quiet reported_power_state"
  by (simp add: quiet_def reported_power_state_def split: option.splits)

lemma quiet_power [quiet_intros]: "quiet (power_on_vm e p)" "quiet (power_off_vm e p)"
  by (auto simp: power_on_vm_def power_off_vm_def intro!: quiet_intros)

lemma quiet_apply_power_state [quiet_intros]: "quiet (apply_power_state e p change)"
  by (auto simp: apply_power_state_def intro!: quiet_intros)

lemma quiet_update_vm [quiet_intros]: "quiet (update_vm e p d)"
  by (auto simp: update_vm_def intro!: quiet_intros)

lemma quiet_create_default_storage_account [quiet_intros]:
  "quiet (create_default_storage_account e p)"
  by (auto simp: create_default_storage_account_def Let_def intro!: quiet_intros
      split: fetched.splits)

lemma quiet_create_default_nic [quiet_intros]: "quiet (create_default_nic e p)"
  by (auto simp: create_default_nic_def Let_def intro!: quiet_intros split: fetched.splits)

lemma quiet_delete_steps [quiet_intros]:
  "quiet (delete_nic e name)" "quiet (delete_pip e name)" "quiet (delete_blob e uri)"
  "quiet (delete_vm_storage e uris)"
  by (auto simp: delete_nic_def delete_pip_def delete_blob_def delete_vm_storage_def
      intro!: quiet_intros split: option.splits prod.splits)

lemma quiet_never_fails:
  assumes "\<And>w. \<exists>v w'. m w = (Inr v, w')"
  shows "quiet m"
  unfolding quiet_def
proof (intro allI impI)
  fix w err w'
  assume "m w = (Inl err, w')"
  moreover from assms obtain v w'' where "m w = (Inr v, w'')" by blast
  ultimately show "\<not> parameter_error err" by simp
qed

lemma quiet_collect_names [quiet_intros]: "quiet (collect_names e p vm)"
  unfolding collect_names_def
  by (intro quiet_intros quiet_never_fails) (simp_all add: silent_map_err)

lemma quiet_delete_vm [quiet_intros]: "quiet (delete_vm e p vm)"
  unfolding delete_vm_def
  by (intro quiet_intros) (auto intro!: quiet_intros)


lemma and_then_Inl:
  "and_then r f = Inl err \<Longrightarrow> r = Inl err \<or> (\<exists>v. r = Inr v \<and> f v = Inl err)"
  by (cases r) (simp_all add: and_then_def)

lemma map_err_Inl: "map_err f xs = Inl err \<Longrightarrow> \<exists>x \<in> set xs. f x = Inl err"
  by (induction xs) (auto split: sum.splits)

lemma silentD: "silent r \<Longrightarrow> r = Inl err \<Longrightarrow> \<not> parameter_error err"
  by (simp add: silent_def)

lemma silent_resolve_image [simp]: "silent (resolve_image e location img)"
  by (simp add: resolve_image_def get_image_version_def Let_def silent_and_then
      split: option.splits)

lemma silent_vm_size_is_valid [simp]: "silent (vm_size_is_valid e location sz)"
  by (simp add: vm_size_is_valid_def split: option.splits)

lemma check_ssh_entry_Inl: "check_ssh_entry key = Inl err \<Longrightarrow> err = Fail ssh_keys_message"
  by (auto simp: check_ssh_entry_def split: ssh_entry.splits if_splits)

lemma check_parameters_parameter_error:
  assumes "check_parameters e p h = Inl err" and "parameter_error err"
  shows "err = Fail ssh_keys_message"
proof (cases "ve_resource_group e")
  case None
  with assms show ?thesis by (auto simp: check_parameters_def)
next
  case (Some group_location)
  let ?location = "if truthy (vp_location p) then the (vp_location p) else group_location"
  let ?size = "if truthy (vp_vm_size p)
               then and_then (vm_size_is_valid e ?location (the (vp_vm_size p)))
                      (\<lambda>valid. if \<not> valid then Inl (AttributeError ''foramt'') else Inr ())
               else Inr ()"
  let ?nics = "if truthy (vp_network_interface_names p)
               then map_err (\<lambda>name. and_then (get_network_interface e h name) (\<lambda>nic. Inr (n_id nic)))
                      (the (vp_network_interface_names p))
               else Inr []"
  let ?keys = "if truthy (vp_ssh_public_keys p)
               then map_err check_ssh_entry (the (vp_ssh_public_keys p)) else Inr []"
  have s1: "silent ?size" by (simp add: silent_and_then)
  have s2: "silent ?nics" by (simp add: silent_and_then silent_map_err)
  have s3: "silent (if truthy (vp_storage_account_name p)
                    then and_then (get_storage_account e h (the (vp_storage_account_name p)))
                           (\<lambda>_. Inr (Some (vhd_uri (the (vp_storage_account_name p))
                                              (vp_storage_container_name p) blob)))
                    else Inr None)" for blob
    by (simp add: silent_and_then)
  show ?thesis
  proof (cases "vp_state p = StAbsent")
    case True
    with assms Some show ?thesis by (simp add: check_parameters_def Let_def)
  next
    case False
    from assms(1) Some False
    have "and_then ?size (\<lambda>_. and_then ?nics (\<lambda>network_interfaces. and_then ?keys (\<lambda>_.
            and_then (resolve_image e ?location (vp_image p)) (\<lambda>img.
              (let blob = (if truthy (vp_storage_blob_name p) then the (vp_storage_blob_name p)
                           else vp_name p @ ''.vhd'')
               in and_then (if truthy (vp_storage_account_name p)
                            then and_then (get_storage_account e h (the (vp_storage_account_name p)))
                                   (\<lambda>_. Inr (Some (vhd_uri (the (vp_storage_account_name p))
                                                      (vp_storage_container_name p) blob)))
                            else Inr None) (\<lambda>requested_vhd_uri.
                     Inr \<lparr> nz_location = ?location, nz_network_interfaces = network_interfaces,
                           nz_image = img, nz_storage_blob_name = Some blob,
                           nz_requested_vhd_uri = requested_vhd_uri,
                           nz_disable_ssh_password = Some (\<not> vp_ssh_password p) \<rparr>)))))) = Inl err"
      by (simp add: check_parameters_def Let_def)
    then consider "?size = Inl err" | "?nics = Inl err" | "?keys = Inl err"
      | "resolve_image e ?location (vp_image p) = Inl err"
      | blob where "(if truthy (vp_storage_account_name p)
                            then and_then (get_storage_account e h (the (vp_storage_account_name p)))
                                   (\<lambda>_. Inr (Some (vhd_uri (the (vp_storage_account_name p))
                                                      (vp_storage_container_name p) blob)))
                            else Inr None) = Inl err"
      by (auto simp: Let_def dest!: and_then_Inl)
    then show ?thesis
    proof cases
      case 1 with s1 assms(2) show ?thesis by (blast dest: silentD)
    next
      case 2 with s2 assms(2) show ?thesis by (blast dest: silentD)
    next
      case 3
      then have "map_err check_ssh_entry (the (vp_ssh_public_keys p)) = Inl err"
        by (simp split: if_splits)
      then show ?thesis by (blast dest: map_err_Inl check_ssh_entry_Inl)
    next
      case 4 with silent_resolve_image assms(2) show ?thesis by (blast dest: silentD)
    next
      case 5 with s3 assms(2) show ?thesis by (blast dest: silentD)
    qed
  qed
qed


lemma quietD: "quiet m \<Longrightarrow> m w = (Inl err, w') \<Longrightarrow> \<not> parameter_error err"
  unfolding quiet_def by blast

lemma create_vm_checked_quiet:
  assumes "truthy (vp_admin_username p)"
    and "\<not> (vp_os_type p = Linux \<and> nz_disable_ssh_password n = Some True \<and> \<not> truthy (vp_ssh_public_keys p))"
    and "nz_image n = Some img"
  shows "quiet (create_vm e p n)"
  using assms
  by (auto simp: create_vm_def intro!: quiet_intros)

lemma create_vm_parameter_error:
  assumes c: "create_vm e p n w = (Inl err, w')" and pe: "parameter_error err"
  shows "err \<in> Fail ` set create_messages
         \<and> w' = w\<lparr> w_results := (w_results w)\<lparr> s_actions := s_actions (w_results w) @ [''Created VM '' @ vp_name p] \<rparr> \<rparr>"
proof (cases "truthy (vp_admin_username p)")
  case False
  with c show ?thesis
    by (auto simp: create_vm_def next_step_def action_def failing_def create_messages_def)
next
  case admin: True
  show ?thesis
  proof (cases "vp_os_type p = Linux \<and> nz_disable_ssh_password n = Some True \<and> \<not> truthy (vp_ssh_public_keys p)")
    case True
    with c admin show ?thesis
      by (auto simp: create_vm_def next_step_def action_def failing_def create_messages_def)
  next
    case keys: False
    show ?thesis
    proof (cases "nz_image n")
      case None
      with c admin keys show ?thesis
        by (auto simp: create_vm_def next_step_def action_def failing_def create_messages_def)
    next
      case (Some img)
      from quietD [OF create_vm_checked_quiet [OF admin keys Some] c] pe show ?thesis
        by simp
    qed
  qed
qed

lemma next_step_failed:
  "next_step m f w = (Inl err, w') \<Longrightarrow>
   m w = (Inl err, w') \<or> (\<exists>v w1. m w = (Inr v, w1) \<and> f v w1 = (Inl err, w'))"
  by (auto simp: next_step_def split: prod.splits sum.splits)

lemma apply_changes_parameter_error:
  assumes a: "apply_changes e p n f w = (Inl err, w')" and pe: "parameter_error err"
  shows "f_vm f = None \<and> f_changed f \<and> err \<in> Fail ` set create_messages
         \<and> w' = w\<lparr> w_results := (w_results w)\<lparr> s_actions := s_actions (w_results w) @ [''Created VM '' @ vp_name p] \<rparr> \<rparr>"
proof (cases "f_changed f")
  case False
  with a show ?thesis by (simp add: apply_changes_def pure_def)
next
  case changed: True
  show ?thesis
  proof (cases "vp_state p = StAbsent")
    case True
    with a changed have "(case f_vm f of None \<Rightarrow> failing (AttributeError ''storage_profile'')
                          | Some vm \<Rightarrow> delete_vm e p vm) w = (Inl err, w')"
      by (simp add: apply_changes_def)
    moreover have "quiet (case f_vm f of None \<Rightarrow> failing (AttributeError ''storage_profile'')
                          | Some vm \<Rightarrow> delete_vm e p vm)"
      by (auto intro!: quiet_intros split: option.splits)
    ultimately show ?thesis using pe by (blast dest: quietD)
  next
    case False
    let ?first = "case f_vm f of
                None \<Rightarrow> create_vm e p n
              | Some vm \<Rightarrow>
                  if truthy (f_differences f)
                  then (case f_vm_dict f of
                          None \<Rightarrow> failing (TypeError ''vm_dict'')
                        | Some vm_dict \<Rightarrow> update_vm e p vm_dict)
                  else pure ()"
    from a changed False
    have "next_step ?first (\<lambda>_. apply_power_state e p (f_powerstate_change f)) w = (Inl err, w')"
      by (simp add: apply_changes_def)
    then consider "?first w = (Inl err, w')"
      | w1 where "apply_power_state e p (f_powerstate_change f) w1 = (Inl err, w')"
      by (blast dest: next_step_failed)
    then show ?thesis
    proof cases
      case 1
      show ?thesis
      proof (cases "f_vm f")
        case None
        with 1 have "create_vm e p n w = (Inl err, w')" by simp
        from create_vm_parameter_error [OF this pe] None changed show ?thesis by simp
      next
        case (Some vm)
        have "quiet (if truthy (f_differences f)
                  then (case f_vm_dict f of
                          None \<Rightarrow> failing (TypeError ''vm_dict'')
                        | Some vm_dict \<Rightarrow> update_vm e p vm_dict)
                  else pure ())"
          by (auto intro!: quiet_intros split: option.splits)
        with 1 Some pe show ?thesis by (auto dest: quietD)
      qed
    next
      case 2
      with pe quiet_apply_power_state show ?thesis by (blast dest: quietD)
    qed
  qed
qed


lemma finish_fields:
  "x_failed (finish (r, w)) = (case r of Inl err \<Rightarrow> Some err | Inr _ \<Rightarrow> None)"
  "x_results (finish (r, w)) = w_results w" "x_calls (finish (r, w)) = w_calls w"
  by (simp_all add: finish_def)

lemma exec_vm_parameter_error:
  assumes x: "x_failed (exec_vm e p h) = Some err" and pe: "parameter_error err"
  shows "x_calls (exec_vm e p h) = h
     \<and> (err = Fail ssh_keys_message \<and> x_results (exec_vm e p h) = initial_results
        \<or> err \<in> Fail ` set create_messages
          \<and> s_changed (x_results (exec_vm e p h))
          \<and> s_actions (x_results (exec_vm e p h)) = [''Created VM '' @ vp_name p])"
proof (cases "check_parameters e p h")
  case (Inl e1)
  with x have "e1 = err" by (simp add: exec_vm_def finish_fields)
  with Inl pe have "err = Fail ssh_keys_message"
    by (blast dest: check_parameters_parameter_error)
  with Inl show ?thesis by (simp add: exec_vm_def finish_fields)
next
  case (Inr n)
  show ?thesis
  proof (cases "fetch_and_compare e p n h")
    case (Inl e2)
    with x Inr have "e2 = err" by (simp add: exec_vm_def finish_fields)
    with Inl pe silent_fetch_and_compare [of e p n h] show ?thesis
      by (simp add: silent_def)
  next
    case f: (Inr f)
    let ?w = "\<lparr> w_results = initial_results\<lparr> s_differences := f_differences f,
                 s_changed := f_changed f, s_results := f_results f,
                 s_powerstate_change := f_powerstate_change f \<rparr>, w_calls = h \<rparr>"
    from x Inr f have cm: "\<not> vp_check_mode p"
      by (auto simp: exec_vm_def Let_def finish_fields)
    with Inr f have ex: "exec_vm e p h = finish (apply_changes e p n f ?w)"
      by (simp add: exec_vm_def Let_def)
    obtain r w' where a: "apply_changes e p n f ?w = (r, w')"
      by (cases "apply_changes e p n f ?w") auto
    with x ex have "r = Inl err"
      by (cases r) (simp_all add: finish_fields)
    with a have "apply_changes e p n f ?w = (Inl err, w')" by simp
    from apply_changes_parameter_error [OF this pe] a ex show ?thesis
      by (simp add: finish_fields initial_results_def)
  qed
qed

lemma silent_diff_steps [simp]:
  "silent (diff_address_prefixes p vnet cr)" "silent (diff_tags e p cr)"
  "silent (diff_dns_servers p vnet cr)"
  by (auto simp: diff_address_prefixes_def diff_tags_def diff_dns_servers_def Let_def
      intro!: silent_and_then split: prod.splits option.splits)

lemma silent_diff_phase [simp]: "silent (diff_phase e p h)"
  by (auto simp: diff_phase_def Let_def intro!: silent_and_then split: fetched.splits vstate.splits)

lemma validate_params_other_message:
  "validate_params e p = Some err \<Longrightarrow>
   err \<noteq> Fail ''Parameter error: address_prefixes_cidr required when creating a virtual network''"
  by (auto simp: validate_params_def name_message_def split: if_splits option.splits)



lemma silent_update_payload [simp]: "silent (update_payload results)"
  by (auto simp: update_payload_def intro!: silent_and_then)

lemma vnet_calls_no_parameter_error:
  "o_failed (create_or_update_vnet e vnet res h) = Some err \<Longrightarrow> \<not> parameter_error err"
  "o_failed (delete_virtual_network e res h) = Some err \<Longrightarrow> \<not> parameter_error err"
  by (auto simp: create_or_update_vnet_def delete_virtual_network_def stop_def return_def
      split: option.splits if_splits)

lemma apply_phase_parameter_error:
  assumes x: "o_failed (apply_phase e p location res h) = Some err" and pe: "parameter_error err"
  shows "err = Fail ''Parameter error: address_prefixes_cidr required when creating a virtual network''
     \<and> apply_phase e p location res h = stop err res h \<and> r_changed res \<and> r_results res = empty_dict"
proof (cases "r_changed res")
  case False
  with x show ?thesis by (simp add: apply_phase_def return_def)
next
  case changed: True
  show ?thesis
  proof (cases "p_state p")
    case Absent
    with x changed have "o_failed (delete_virtual_network e res h) = Some err"
      by (simp add: apply_phase_def)
    with pe show ?thesis by (blast dest: vnet_calls_no_parameter_error)
  next
    case Present
    show ?thesis
    proof (cases "r_results res = empty_dict")
      case True
      show ?thesis
      proof (cases "truthy (p_address_prefixes_cidr p)")
        case False
        with x changed Present True show ?thesis
          by (auto simp: apply_phase_def stop_def)
      next
        case t: True
        with x changed Present True obtain vnet
          where "o_failed (create_or_update_vnet e vnet res h) = Some err"
          by (auto simp: apply_phase_def)
        with pe show ?thesis by (blast dest: vnet_calls_no_parameter_error)
      qed
    next
      case False
      show ?thesis
      proof (cases "update_payload (r_results res)")
        case (Inl e1)
        with x changed Present False have "e1 = err" by (simp add: apply_phase_def stop_def)
        with Inl pe silent_update_payload [of "r_results res"] show ?thesis
          by (simp add: silent_def)
      next
        case (Inr vnet)
        with x changed Present False
        have "o_failed (create_or_update_vnet e vnet res h) = Some err"
          by (simp add: apply_phase_def)
        with pe show ?thesis by (blast dest: vnet_calls_no_parameter_error)
      qed
    qed
  qed
qed


lemma exec_module_impl_parameter_error:
  assumes x: "o_failed (exec_module_impl e p h) = Some err" and pe: "parameter_error err"
  shows "o_calls (exec_module_impl e p h) = h
     \<and> r_results (o_results (exec_module_impl e p h)) = empty_dict
     \<and> r_changed (o_results (exec_module_impl e p h))
       = (err = Fail ''Parameter error: address_prefixes_cidr required when creating a virtual network'')"
proof (cases "e_resource_group e")
  case None
  with x pe show ?thesis by (auto simp: exec_module_impl_def stop_def Let_def)
next
  case (Some group_location)
  show ?thesis
  proof (cases "validate_params e p")
    case v: (Some e1)
    with x Some have "e1 = err" by (simp add: exec_module_impl_def stop_def Let_def)
    with v validate_params_other_message [of e p err] Some show ?thesis
      by (simp add: exec_module_impl_def stop_def Let_def)
  next
    case None
    show ?thesis
    proof (cases "diff_phase e p h")
      case (Inl e2)
      with x Some None have "e2 = err" by (simp add: exec_module_impl_def stop_def Let_def)
      with Inl pe silent_diff_phase [of e p h] show ?thesis by (simp add: silent_def)
    next
      case (Inr cr)
      obtain changed results where cr: "cr = (changed, results)" by (cases cr) auto
      define location where "location = (if truthy (p_location p) then the (p_location p) else group_location)"
      define res where "res = \<lparr> r_changed = changed, r_results = results \<rparr>"
      from x Some None Inr cr have cm: "\<not> p_check_mode p"
        by (auto simp: exec_module_impl_def return_def Let_def)
      with Some None Inr cr
      have ex: "exec_module_impl e p h = apply_phase e p location res h"
        by (simp add: exec_module_impl_def Let_def location_def res_def)
      from x ex have "o_failed (apply_phase e p location res h) = Some err" by simp
      from apply_phase_parameter_error [OF this pe]
      show ?thesis unfolding ex by (simp add: stop_def)
    qed
  qed
qed

text \<open>
  C3, as the code has it.  An invocation that ends in a parameter error has issued no
  changing call.  In the virtual machine module the error is either that of the SSH key
  entries, raised before the fetch, and then \<^verbatim>\<open>self.results\<close> is as it was initially
  (not changed, no action, no results); or one of the three raised when a machine is
  about to be created, and then \<^verbatim>\<open>changed\<close> is true and the action log is
  \<open>Created VM\<close> with the name.  In the virtual network module the results are empty,
  and \<^verbatim>\<open>changed\<close> is true exactly for the error raised when a network is about to be
  created without address prefixes.
\<close>

theorem parameter_error_before_any_call:
  "(x_failed (exec_vm e p h) = Some err \<and> parameter_error err
    \<longrightarrow> x_calls (exec_vm e p h) = h
        \<and> (err = Fail ssh_keys_message \<and> x_results (exec_vm e p h) = initial_results
           \<or> err \<in> Fail ` set create_messages
             \<and> s_changed (x_results (exec_vm e p h))
             \<and> s_actions (x_results (exec_vm e p h)) = [''Created VM '' @ vp_name p]))
   \<and> (o_failed (exec_module_impl e' q h') = Some err' \<and> parameter_error err'
    \<longrightarrow> o_calls (exec_module_impl e' q h') = h'
        \<and> r_results (o_results (exec_module_impl e' q h')) = empty_dict
        \<and> r_changed (o_results (exec_module_impl e' q h'))
          = (err' = Fail ''Parameter error: address_prefixes_cidr required when creating a virtual network''))"
  using exec_vm_parameter_error [of e p h err] exec_module_impl_parameter_error [of e' q h' err']
  by blast

theorem parameter_error_before_any_call_witness:
  "parameter_error (Fail ssh_keys_message)
   \<and> x_failed (exec_vm (machine_plane None)
        (want_vm\<lparr> vp_ssh_public_keys := Some [KeyDict (Some ''/home/u/.ssh/authorized_keys'') None] \<rparr>) [])
       = Some (Fail ssh_keys_message)
   \<and> x_calls (exec_vm (machine_plane None)
        (want_vm\<lparr> vp_ssh_public_keys := Some [KeyDict (Some ''/home/u/.ssh/authorized_keys'') None] \<rparr>) [])
       = []
   \<and> parameter_error (Fail name_message)
   \<and> o_failed (exec_module_impl (control_plane None) (want\<lparr> p_name := ''my-network-'' \<rparr>) [])
       = Some (Fail name_message)
   \<and> o_calls (exec_module_impl (control_plane None) (want\<lparr> p_name := ''my-network-'' \<rparr>) []) = []
   \<and> \<not> r_changed (o_results (exec_module_impl (control_plane None)
                                 (want\<lparr> p_name := ''my-network-'' \<rparr>) []))"
proof -
  let ?p = "want_vm\<lparr> vp_ssh_public_keys := Some [KeyDict (Some ''/home/u/.ssh/authorized_keys'') None] \<rparr>"
  let ?q = "want\<lparr> p_name := ''my-network-'' \<rparr>"
  have 1: "parameter_error (Fail ssh_keys_message)" "parameter_error (Fail name_message)"
    by (simp_all add: parameter_error_def startswith_def ssh_keys_message_def name_message_def)
  have 2: "x_failed (exec_vm (machine_plane None) ?p []) = Some (Fail ssh_keys_message)"
    by (simp add: vm_defs machine_defs)
  have 3: "o_failed (exec_module_impl (control_plane None) ?q []) = Some (Fail name_message)"
    by (simp add: vnet_run_defs plane_defs name_defs)
  have 4: "Fail name_message \<noteq>
      Fail ''Parameter error: address_prefixes_cidr required when creating a virtual network''"
    by (simp add: name_message_def)
  from parameter_error_before_any_call
         [where e = "machine_plane None" and p = ?p and h = "[]" and err = "Fail ssh_keys_message"
            and e' = "control_plane None" and q = ?q and h' = "[]" and err' = "Fail name_message"]
       1 2 3 4
  show ?thesis by simp
qed

text \<open>
  C3, as the specification has it, fails.  Creating a machine without
  \<^verbatim>\<open>admin_username\<close>: the invocation ends in a parameter error, no call has been issued,
  and at that moment \<^verbatim>\<open>changed\<close> is true and the action log holds \<open>Created VM testvm\<close>.
  Creating a network without address prefixes: \<^verbatim>\<open>changed\<close> is true as well.
\<close>

theorem create_failure_reports_change:
  "x_failed (exec_vm (machine_plane None) want_vm []) =
     Some (Fail ''Parameter error: admin_username required when creating a virtual machine.'')
   \<and> x_calls (exec_vm (machine_plane None) want_vm []) = []
   \<and> s_changed (x_results (exec_vm (machine_plane None) want_vm []))
   \<and> s_actions (x_results (exec_vm (machine_plane None) want_vm [])) = [''Created VM testvm'']
   \<and> o_failed (exec_module_impl (control_plane None) want []) =
     Some (Fail ''Parameter error: address_prefixes_cidr required when creating a virtual network'')
   \<and> r_changed (o_results (exec_module_impl (control_plane None) want []))"
  by (simp add: vm_defs machine_defs vnet_run_defs plane_defs name_vnet)

end
